theory Spec2Isabelle
  imports Main "HOL-Library.Char_ord" "HOL-Library.List_Lexorder"
begin

section \<open>JavaScript values as the bridge sees them\<close>

text \<open>
  Every frame on either socket is JSON text. \<open>JSON.parse\<close> turns it into a value of
  \<open>jsval\<close> or throws; the handlers then read properties of that value, test it for
  truthiness and splice it into template literals. \<open>JUndefined\<close> is what a read of an
  absent property gives. A number is a double, and the program never computes with one:
  it only tests it for truthiness and prints it. \<open>JNum\<close> therefore keeps a number by
  those two observations: whether it is other than zero, and the text JavaScript prints
  it as (\<open>1e+21\<close> for the number 1e21, \<open>0.5\<close> for a half). An object is the list
  of its own properties; \<open>map_of\<close> reads the binding of a key.
\<close>

datatype jsval =
    JUndefined
  | JNull
  | JBool bool
  | JNum bool string
  | JStr string
  | JArr "jsval list"
  | JObj "(string \<times> jsval) list"

datatype error = SyntaxError | TypeError | SqlError | WsNotOpen

text \<open>A statement sequence either runs to its end or throws, and what it had already
  written stays written: both outcomes carry the state.\<close>

datatype 's res = Ok 's | Raise error 's

definition and_then :: "'s res \<Rightarrow> ('s \<Rightarrow> 's res) \<Rightarrow> 's res" where
  "and_then r f = (case r of Ok s \<Rightarrow> f s | Raise e s \<Rightarrow> Raise e s)"

definition try_catch :: "'s res \<Rightarrow> (error \<Rightarrow> 's \<Rightarrow> 's res) \<Rightarrow> 's res" where
  "try_catch r h = (case r of Ok s \<Rightarrow> Ok s | Raise e s \<Rightarrow> h e s)"

definition nullish :: "jsval \<Rightarrow> bool" where
  "nullish v = (v = JUndefined \<or> v = JNull)"

fun truthy :: "jsval \<Rightarrow> bool" where
  "truthy JUndefined = False"
| "truthy JNull = False"
| "truthy (JBool b) = b"
| "truthy (JNum nonzero printed) = nonzero"
| "truthy (JStr s) = (s \<noteq> [])"
| "truthy (JArr xs) = True"
| "truthy (JObj kvs) = True"

text \<open>\<open>v.k\<close>, for the property names the handlers read (event, start, media, payload,
  type, name, arguments, transcript, ...): none of them is defined by a prototype, so
  the read gives the own property of an object and \<open>undefined\<close> on any other value,
  and throws a TypeError on \<open>undefined\<close> and \<open>null\<close>.\<close>

fun js_get :: "jsval \<Rightarrow> string \<Rightarrow> error + jsval" where
  "js_get JUndefined k = Inl TypeError"
| "js_get JNull k = Inl TypeError"
| "js_get (JObj kvs) k = Inr (case map_of kvs k of None \<Rightarrow> JUndefined | Some v \<Rightarrow> v)"
| "js_get v k = Inr JUndefined"

text \<open>\<open>v?.k\<close>: \<open>undefined\<close> when \<open>v\<close> is \<open>undefined\<close> or \<open>null\<close>.\<close>

definition js_opt_get :: "jsval \<Rightarrow> string \<Rightarrow> jsval" where
  "js_opt_get v k =
     (if nullish v then JUndefined
      else (case js_get v k of Inl e \<Rightarrow> JUndefined | Inr x \<Rightarrow> x))"

text \<open>\<open>v[0]\<close>: the first element of an array, the first character of a string, the
  property \<open>"0"\<close> of an object.\<close>

fun js_index0 :: "jsval \<Rightarrow> error + jsval" where
  "js_index0 JUndefined = Inl TypeError"
| "js_index0 JNull = Inl TypeError"
| "js_index0 (JArr xs) = Inr (case xs of [] \<Rightarrow> JUndefined | x # _ \<Rightarrow> x)"
| "js_index0 (JStr s) = Inr (case s of [] \<Rightarrow> JUndefined | ch # _ \<Rightarrow> JStr [ch])"
| "js_index0 (JObj kvs) = Inr (case map_of kvs ''0'' of None \<Rightarrow> JUndefined | Some v \<Rightarrow> v)"
| "js_index0 v = Inr JUndefined"

text \<open>The decimal digits of a natural number: how \<open>Date.now()\<close>, an integer far below
  \<open>1e21\<close>, prints in the session id.\<close>

function nat_digits :: "nat \<Rightarrow> string" where
  "nat_digits n =
     (if n < 10 then [''0123456789'' ! n]
      else nat_digits (n div 10) @ [''0123456789'' ! (n mod 10)])"
  by pat_completeness auto
termination
  by (relation "measure (\<lambda>n. n)") auto

text \<open>The string a template literal \<open>${v}\<close> splices in. An array prints its elements
  joined by commas, \<open>null\<close> and \<open>undefined\<close> elements as nothing. An object prints as
  \<open>[object Object]\<close> through the inherited \<open>toString\<close>; an object parsed from JSON with
  an own property \<open>toString\<close> shadows it with a value that cannot be called, and the
  conversion throws.\<close>

fun to_string :: "jsval \<Rightarrow> error + string"
  and join_elems :: "jsval list \<Rightarrow> error + string" where
  "to_string JUndefined = Inr ''undefined''"
| "to_string JNull = Inr ''null''"
| "to_string (JBool b) = Inr (if b then ''true'' else ''false'')"
| "to_string (JNum nonzero printed) = Inr printed"
| "to_string (JStr s) = Inr s"
| "to_string (JArr xs) = join_elems xs"
| "to_string (JObj kvs) =
     (if ''toString'' \<in> fst ` set kvs then Inl TypeError else Inr ''[object Object]'')"
| "join_elems [] = Inr []"
| "join_elems (x # xs) =
     (case (if nullish x then Inr [] else to_string x) of
        Inl e \<Rightarrow> Inl e
      | Inr s \<Rightarrow>
          (case xs of
             [] \<Rightarrow> Inr s
           | _ # _ \<Rightarrow> (case join_elems xs of Inl e \<Rightarrow> Inl e | Inr r \<Rightarrow> Inr (s @ '','' @ r))))"

text \<open>\<open>String.prototype.trim\<close> on the code units below 256: tab, line feed, vertical
  tab, form feed, carriage return, space and the no-break space are white space.\<close>

definition is_white_space :: "char \<Rightarrow> bool" where
  "is_white_space ch = (of_char ch \<in> {9, 10, 11, 12, 13, 32, 160 :: nat})"

definition trim :: "string \<Rightarrow> string" where
  "trim s = rev (dropWhile is_white_space (rev (dropWhile is_white_space s)))"

section \<open>Sockets\<close>

datatype ready_state = CONNECTING | OPEN | CLOSING | CLOSED

record 'm websocket =
  readyState :: ready_state
  sent :: "'m list"

text \<open>\<open>ws.send\<close>: throws while the socket is still connecting, delivers on an open
  socket, and discards the data (handing the error to a callback the program never
  passes) once the socket is closing or closed.\<close>

definition ws_send :: "'m websocket \<Rightarrow> 'm \<Rightarrow> error + 'm websocket" where
  "ws_send ws m =
     (case readyState ws of
        CONNECTING \<Rightarrow> Inl WsNotOpen
      | OPEN \<Rightarrow> Inr (ws\<lparr>sent := sent ws @ [m]\<rparr>)
      | CLOSING \<Rightarrow> Inr ws
      | CLOSED \<Rightarrow> Inr ws)"

text \<open>The events the bridge sends to the AI service, one constructor per object literal
  of the source: the session configuration (a constant), a conversation item (the first
  turn, or a tool's output), a bare \<open>response.create\<close>, a \<open>response.create\<close> with
  instructions, and an audio chunk.\<close>

datatype item =
    MessageItem jsval
  | FunctionCallOutputItem string

datatype ai_event =
    SessionUpdate
  | ConversationItemCreate item
  | ResponseCreate
  | ResponseCreateWith string
  | InputAudioBufferAppend jsval

text \<open>The one frame the bridge sends to the caller stream: \<open>media\<close>, with the stream
  id and the payload.\<close>

datatype twilio_event = MediaFrame jsval jsval

section \<open>The database\<close>

record user =
  u_id :: int
  u_user_id :: string
  u_password :: string
  u_phone_number :: string
  u_name :: string
  u_date_of_birth :: string
  u_allergies :: string
  u_conditions :: string
  u_medications :: string
  u_last_visit :: string

record appointment =
  a_user_id :: int
  a_doctor :: jsval
  a_date :: jsval
  a_reason :: jsval
  a_status :: string

record email =
  e_user_id :: int
  e_doctor :: jsval
  e_subject :: jsval
  e_content :: jsval
  e_status :: string

record call_row =
  c_user_id :: int
  c_transcript :: string
  c_date :: nat

text \<open>The server opens \<open>./sqlite3.db\<close> and creates no table itself (the tables come
  from the set-up scripts), so a table may be missing: \<open>None\<close>, and every statement on
  it is rejected. A \<open>medical_history\<close> row is kept as the JSON object \<open>SELECT *\<close>
  returns, beside the two columns the query filters and orders by.\<close>

record database =
  users :: "user list option"
  appointments :: "appointment list option"
  emails :: "email list option"
  calls :: "call_row list option"
  medical_history :: "(int \<times> string \<times> jsval) list option"

definition insert_row :: "'r list option \<Rightarrow> 'r \<Rightarrow> error + 'r list option" where
  "insert_row table r =
     (case table of None \<Rightarrow> Inl SqlError | Some rows \<Rightarrow> Inr (Some (rows @ [r])))"

section \<open>Process-wide state\<close>

text \<open>\<open>loginAttempts\<close> is a plain object used as a dictionary, so a read of a key the
  object does not own falls through to \<open>Object.prototype\<close>: for the names below it
  gives a function (or, for \<open>__proto__\<close>, the prototype object), not \<open>undefined\<close>.
  A slot therefore holds a number, \<open>NaN\<close>, such an inherited value, or the text that
  \<open>+= 1\<close> makes of one.\<close>

datatype attempt_val = ANum nat | ANaN | AInherited | AText

definition Object_prototype_names :: "string list" where
  "Object_prototype_names =
     [''constructor'', ''__defineGetter__'', ''__defineSetter__'', ''hasOwnProperty'',
      ''__lookupGetter__'', ''__lookupSetter__'', ''isPrototypeOf'',
      ''propertyIsEnumerable'', ''toString'', ''valueOf'', ''__proto__'',
      ''toLocaleString'']"

type_synonym attempts = "string \<rightharpoonup> attempt_val"

text \<open>\<open>obj[k]\<close>\<close>

definition attempts_get :: "attempts \<Rightarrow> string \<Rightarrow> attempt_val option" where
  "attempts_get obj k =
     (if k = ''__proto__'' then Some AInherited
      else (case obj k of
              Some v \<Rightarrow> Some v
            | None \<Rightarrow> if k \<in> set Object_prototype_names then Some AInherited else None))"

text \<open>\<open>obj[k] = v\<close>: the setter of \<open>__proto__\<close> ignores a value that is not an object.\<close>

definition attempts_set :: "attempts \<Rightarrow> string \<Rightarrow> attempt_val \<Rightarrow> attempts" where
  "attempts_set obj k v = (if k = ''__proto__'' then obj else obj(k \<mapsto> v))"

fun attempt_truthy :: "attempt_val option \<Rightarrow> bool" where
  "attempt_truthy None = False"
| "attempt_truthy (Some (ANum n)) = (n \<noteq> 0)"
| "attempt_truthy (Some ANaN) = False"
| "attempt_truthy (Some AInherited) = True"
| "attempt_truthy (Some AText) = True"

text \<open>\<open>x + 1\<close>: addition on a number, \<open>NaN\<close> on \<open>undefined\<close>, string concatenation on
  a function, an object or a string.\<close>

fun attempt_plus1 :: "attempt_val option \<Rightarrow> attempt_val" where
  "attempt_plus1 None = ANaN"
| "attempt_plus1 (Some (ANum n)) = ANum (n + 1)"
| "attempt_plus1 (Some ANaN) = ANaN"
| "attempt_plus1 (Some AInherited) = AText"
| "attempt_plus1 (Some AText) = AText"

text \<open>\<open>x >= 3\<close>: the text of a function or of an object is not a numeral, so it
  compares as \<open>NaN\<close>.\<close>

fun attempt_ge3 :: "attempt_val option \<Rightarrow> bool" where
  "attempt_ge3 (Some (ANum n)) = (3 \<le> n)"
| "attempt_ge3 v = False"

text \<open>The console, as far as \<open>console.error\<close> writes to it: the label and the error.
  The \<open>console.log\<close> lines of the source print debugging output, change nothing and
  cannot throw; they are left out.\<close>

datatype log_entry = LogError string error

text \<open>A session object lives on the heap: the registry \<open>sessions\<close> and the closure of the
  call's handlers hold the same reference.\<close>

record session_obj =
  transcript :: string
  s_streamSid :: jsval
  callerNumber :: jsval

record world =
  globalUser :: "user option"
  db :: database
  loginAttempts :: attempts
  sessions :: "string \<rightharpoonup> nat"
  heap :: "nat \<Rightarrow> session_obj"
  next_ref :: nat
  console :: "log_entry list"

definition console_error :: "string \<Rightarrow> error \<Rightarrow> world \<Rightarrow> world" where
  "console_error label e w = w\<lparr>console := console w @ [LogError label e]\<rparr>"

section \<open>Database helper functions\<close>

text \<open>\<open>verifyUser\<close>: the first row whose \<open>user_id\<close> and \<open>password\<close> both equal the
  arguments; a rejected query is logged and answered like no match.\<close>

definition verifyUser :: "world \<Rightarrow> string \<Rightarrow> string \<Rightarrow> user option \<times> world" where
  "verifyUser w userId password =
     (case users (db w) of
        None \<Rightarrow> (None, console_error ''Error verifying user:'' SqlError w)
      | Some rows \<Rightarrow>
          (find (\<lambda>u. u_user_id u = userId \<and> u_password u = password) rows, w))"

text \<open>The result object of a tool; only \<open>message\<close> is ever read (the \<open>thread\<close> stamp
  that \<open>getMedicalHistory\<close> adds is not).\<close>

record tool_result =
  message :: string

text \<open>The builtins \<open>JSON.parse\<close> (\<open>None\<close>: it throws a SyntaxError) and
  \<open>JSON.stringify\<close> are the runtime's, not the repository's: the handlers take them as
  parameters.\<close>

record runtime =
  JSON_parse :: "string \<Rightarrow> jsval option"
  JSON_stringify :: "jsval \<Rightarrow> string"

text \<open>\<open>SELECT * FROM medical_history WHERE user_id = ? ORDER BY date DESC\<close>: the rows
  of the user, latest date first, rows of the same date in the order they were inserted.\<close>

definition select_history :: "(int \<times> string \<times> jsval) list \<Rightarrow> int \<Rightarrow> jsval list" where
  "select_history rows uid =
     map (\<lambda>r. snd (snd r))
       (rev (sort_key (\<lambda>r. fst (snd r)) (rev (filter (\<lambda>r. fst r = uid) rows))))"

definition getMedicalHistory :: "runtime \<Rightarrow> world \<Rightarrow> tool_result \<times> world" where
  "getMedicalHistory rt w =
     (case globalUser w of
        None \<Rightarrow> (\<lparr>message = ''Patient not found in our records.''\<rparr>, w)
      | Some u \<Rightarrow>
          (case medical_history (db w) of
             None \<Rightarrow>
               (\<lparr>message = ''Error retrieving medical history.''\<rparr>,
                console_error ''Error getting medical history:'' SqlError w)
           | Some rows \<Rightarrow>
               (\<lparr>message = JSON_stringify rt
                   (JObj [(''patient'',
                           JObj [(''name'', JStr (u_name u)),
                                 (''dob'', JStr (u_date_of_birth u)),
                                 (''allergies'', JStr (u_allergies u)),
                                 (''conditions'', JStr (u_conditions u)),
                                 (''medications'', JStr (u_medications u)),
                                 (''lastVisit'', JStr (u_last_visit u))]),
                          (''history'', JArr (select_history rows (u_id u)))])\<rparr>,
                w)))"

definition scheduleAppointment ::
  "world \<Rightarrow> jsval \<Rightarrow> jsval \<Rightarrow> jsval \<Rightarrow> tool_result \<times> world" where
  "scheduleAppointment w doctor date reason =
     (case globalUser w of
        None \<Rightarrow> (\<lparr>message = ''Patient not found in our records.''\<rparr>, w)
      | Some u \<Rightarrow>
          (case insert_row (appointments (db w))
                  \<lparr>a_user_id = u_id u, a_doctor = doctor, a_date = date, a_reason = reason,
                   a_status = ''scheduled''\<rparr> of
             Inl e \<Rightarrow>
               (\<lparr>message = ''Unable to schedule appointment at this time.''\<rparr>,
                console_error ''Error scheduling appointment:'' e w)
           | Inr table \<Rightarrow>
               (let w1 = w\<lparr>db := (db w)\<lparr>appointments := table\<rparr>\<rparr> in
                case to_string doctor of
                  Inl e \<Rightarrow>
                    (\<lparr>message = ''Unable to schedule appointment at this time.''\<rparr>,
                     console_error ''Error scheduling appointment:'' e w1)
                | Inr d \<Rightarrow>
                (case to_string date of
                  Inl e \<Rightarrow>
                    (\<lparr>message = ''Unable to schedule appointment at this time.''\<rparr>,
                     console_error ''Error scheduling appointment:'' e w1)
                | Inr dt \<Rightarrow>
                (case to_string reason of
                  Inl e \<Rightarrow>
                    (\<lparr>message = ''Unable to schedule appointment at this time.''\<rparr>,
                     console_error ''Error scheduling appointment:'' e w1)
                | Inr r \<Rightarrow>
                    (\<lparr>message = ''Appointment scheduled with '' @ d @ '' on '' @ dt @
                                 '' for '' @ r @ ''.''\<rparr>,
                     w1))))))"

definition sendDoctorEmail ::
  "world \<Rightarrow> jsval \<Rightarrow> jsval \<Rightarrow> jsval \<Rightarrow> tool_result \<times> world" where
  "sendDoctorEmail w doctor subject content =
     (case globalUser w of
        None \<Rightarrow> (\<lparr>message = ''Patient not found in our records.''\<rparr>, w)
      | Some u \<Rightarrow>
          (case insert_row (emails (db w))
                  \<lparr>e_user_id = u_id u, e_doctor = doctor, e_subject = subject,
                   e_content = content, e_status = ''pending''\<rparr> of
             Inl e \<Rightarrow>
               (\<lparr>message = ''Unable to send message at this time.''\<rparr>,
                console_error ''Error sending email:'' e w)
           | Inr table \<Rightarrow>
               (let w1 = w\<lparr>db := (db w)\<lparr>emails := table\<rparr>\<rparr> in
                case to_string doctor of
                  Inl e \<Rightarrow>
                    (\<lparr>message = ''Unable to send message at this time.''\<rparr>,
                     console_error ''Error sending email:'' e w1)
                | Inr d \<Rightarrow>
                    (\<lparr>message = ''Message sent to Dr. '' @ d @
                                 ''. They will respond to your inquiry soon.''\<rparr>,
                     w1))))"

text \<open>\<open>saveTranscript\<close>; the second argument of the model is the time SQLite's
  \<open>datetime("now")\<close> reads.\<close>

definition saveTranscript :: "world \<Rightarrow> nat \<Rightarrow> int \<Rightarrow> string \<Rightarrow> bool \<times> world" where
  "saveTranscript w now userId text =
     (case insert_row (calls (db w))
             \<lparr>c_user_id = userId, c_transcript = text, c_date = now\<rparr> of
        Inl e \<Rightarrow> (False, console_error ''Error saving transcript:'' e w)
      | Inr table \<Rightarrow> (True, w\<lparr>db := (db w)\<lparr>calls := table\<rparr>\<rparr>))"

text \<open>\<open>SELECT transcript FROM calls WHERE user_id = ? ORDER BY date DESC LIMIT 1\<close>: a
  row of the user with the greatest date (the earliest inserted one among equals; SQL
  leaves that choice open).\<close>

definition last_call :: "call_row list \<Rightarrow> int \<Rightarrow> call_row option" where
  "last_call rows uid =
     (case filter (\<lambda>r. c_user_id r = uid) rows of
        [] \<Rightarrow> None
      | r # rs \<Rightarrow> Some (foldl (\<lambda>best x. if c_date best < c_date x then x else best) r rs))"

definition getLastCallInfo :: "world \<Rightarrow> string \<times> world" where
  "getLastCallInfo w =
     (case globalUser w of
        None \<Rightarrow>
          (''Welcome to City Medical Center. I don't seem to have your records. How can I assist you today?'',
           w)
      | Some u \<Rightarrow>
          (case calls (db w) of
             None \<Rightarrow>
               (''Welcome to City Medical Center. How can I assist you today?'',
                console_error ''Error getting last call info:'' SqlError w)
           | Some rows \<Rightarrow>
               (''Welcome back '' @ u_name u @ ''. '' @
                  (case last_call rows (u_id u) of
                     Some lastCall \<Rightarrow>
                       ''I see your last call summary: '' @ [CHR 0x22] @ c_transcript lastCall @
                       [CHR 0x22] @ ''. How can I assist you today?''
                   | None \<Rightarrow>
                       ''I see your last visit was on '' @ u_last_visit u @
                       ''. How can I assist you today?''),
                w)))"

section \<open>The password route\<close>

text \<open>The TwiML the route answers with, by what it makes the call do: open the media
  stream (with the two stream parameters \<open>firstMessage\<close> and \<open>callerNumber\<close>), ask
  for the password again, or hang up.\<close>

datatype twiml = Connect string string | TryAgain | Hangup

text \<open>\<open>fastify.post('/process-password')\<close>, on the \<open>userId\<close> of the query string and
  the \<open>Digits\<close> of the form body.\<close>

definition process_password :: "world \<Rightarrow> string \<Rightarrow> string \<Rightarrow> twiml \<times> world" where
  "process_password w userId password =
     (let la0 = loginAttempts w;
          la1 = (if attempt_truthy (attempts_get la0 userId) then la0
                 else attempts_set la0 userId (ANum 0));
          la2 = attempts_set la1 userId (attempt_plus1 (attempts_get la1 userId));
          (found, w1) = verifyUser (w\<lparr>loginAttempts := la2\<rparr>) userId password
      in case found of
           Some u \<Rightarrow>
             (let w2 = w1\<lparr>loginAttempts := attempts_set (loginAttempts w1) userId (ANum 0),
                          globalUser := Some u\<rparr>;
                  (firstMessage, w3) = getLastCallInfo w2
              in (Connect firstMessage (u_phone_number u), w3))
         | None \<Rightarrow>
             if attempt_ge3 (attempts_get (loginAttempts w1) userId)
             then (Hangup,
                   w1\<lparr>loginAttempts := attempts_set (loginAttempts w1) userId (ANum 0)\<rparr>)
             else (TryAgain, w1))"

section \<open>The media-stream route\<close>

text \<open>The variables one connection's handlers close over, with the two sockets of the
  call: \<open>openAiWs\<close> to the AI service and \<open>connection\<close> to the caller stream.\<close>

record conn =
  firstMessage :: jsval
  streamSid :: jsval
  openAiWsReady :: bool
  queuedFirstMessage :: "ai_event option"
  sessionId :: string
  session :: nat
  openAiWs :: "ai_event websocket"
  connection :: "twilio_event websocket"

text \<open>\<open>a || b\<close>\<close>

definition js_or :: "jsval \<Rightarrow> jsval \<Rightarrow> jsval" where
  "js_or a b = (if truthy a then a else b)"

text \<open>The route's own body, run when the caller stream connects: the session id is the
  \<open>x-twilio-call-sid\<close> header or, without one, a stamp of the clock; the session object
  is the registered one or a new one, and is (re)registered; the socket to the AI
  service starts connecting.\<close>

definition media_stream_connect :: "world \<Rightarrow> string option \<Rightarrow> nat \<Rightarrow> world \<times> conn" where
  "media_stream_connect w header now =
     (let sid = (case header of
                   None \<Rightarrow> ''session_'' @ nat_digits now
                 | Some h \<Rightarrow> if h = [] then ''session_'' @ nat_digits now else h);
          (ref, w1) =
            (case sessions w sid of
               Some r \<Rightarrow> (r, w)
             | None \<Rightarrow>
                 (next_ref w,
                  w\<lparr>heap := (heap w)(next_ref w :=
                              \<lparr>transcript = [], s_streamSid = JNull, callerNumber = JUndefined\<rparr>),
                    next_ref := next_ref w + 1\<rparr>))
      in (w1\<lparr>sessions := (sessions w1)(sid \<mapsto> ref)\<rparr>,
          \<lparr>firstMessage = JStr [], streamSid = JStr [], openAiWsReady = False,
           queuedFirstMessage = None, sessionId = sid, session = ref,
           openAiWs = \<lparr>readyState = CONNECTING, sent = []\<rparr>,
           connection = \<lparr>readyState = OPEN, sent = []\<rparr>\<rparr>))"

definition sendSessionUpdate :: "conn \<Rightarrow> conn res" where
  "sendSessionUpdate c =
     (case ws_send (openAiWs c) SessionUpdate of
        Inl e \<Rightarrow> Raise e c
      | Inr ws \<Rightarrow> Ok (c\<lparr>openAiWs := ws\<rparr>))"

definition sendFirstMessage :: "conn \<Rightarrow> conn res" where
  "sendFirstMessage c =
     (case queuedFirstMessage c of
        None \<Rightarrow> Ok c
      | Some q \<Rightarrow>
          if openAiWsReady c then
            (case ws_send (openAiWs c) q of
               Inl e \<Rightarrow> Raise e c
             | Inr ws1 \<Rightarrow>
                 (case ws_send ws1 ResponseCreate of
                    Inl e \<Rightarrow> Raise e (c\<lparr>openAiWs := ws1\<rparr>)
                  | Inr ws2 \<Rightarrow> Ok (c\<lparr>openAiWs := ws2, queuedFirstMessage := None\<rparr>)))
          else Ok c)"

text \<open>\<open>openAiWs.on('open')\<close>\<close>

definition on_openai_open :: "conn \<Rightarrow> conn res" where
  "on_openai_open c =
     and_then (sendSessionUpdate (c\<lparr>openAiWsReady := True\<rparr>)) sendFirstMessage"

subsection \<open>Frames from the caller stream\<close>

text \<open>The \<open>start\<close> branch. \<open>data.start.streamSid\<close> is the first read and throws when
  the frame has no \<open>start\<close> object; once it has succeeded, the reads of
  \<open>data.start.callSid\<close> and \<open>data.start.customParameters\<close> cannot throw.\<close>

definition twilio_start :: "jsval \<Rightarrow> world \<times> conn \<Rightarrow> (world \<times> conn) res" where
  "twilio_start data wc =
     (case wc of (w, c) \<Rightarrow>
      (case js_get data ''start'' of
         Inl e \<Rightarrow> Raise e (w, c)
       | Inr start \<Rightarrow>
      (case js_get start ''streamSid'' of
         Inl e \<Rightarrow> Raise e (w, c)
       | Inr sid \<Rightarrow>
           (let customParameters = js_opt_get start ''customParameters'';
                number = js_or (js_opt_get customParameters ''callerNumber'') (JStr ''Unknown'');
                w1 = w\<lparr>heap := (heap w)(session c :=
                                  (heap w (session c))\<lparr>callerNumber := number\<rparr>)\<rparr>;
                text = js_or (js_opt_get customParameters ''firstMessage'')
                             (JStr ''Hello, how can I assist you?'');
                c1 = c\<lparr>streamSid := sid, firstMessage := text,
                       queuedFirstMessage := Some (ConversationItemCreate (MessageItem text))\<rparr>
            in if openAiWsReady c1
               then (case sendFirstMessage c1 of
                       Ok c2 \<Rightarrow> Ok (w1, c2)
                     | Raise e c2 \<Rightarrow> Raise e (w1, c2))
               else Ok (w1, c1)))))"

text \<open>The \<open>media\<close> branch.\<close>

definition twilio_media :: "jsval \<Rightarrow> world \<times> conn \<Rightarrow> (world \<times> conn) res" where
  "twilio_media data wc =
     (case wc of (w, c) \<Rightarrow>
      if readyState (openAiWs c) = OPEN then
        (case js_get data ''media'' of
           Inl e \<Rightarrow> Raise e (w, c)
         | Inr media \<Rightarrow>
        (case js_get media ''payload'' of
           Inl e \<Rightarrow> Raise e (w, c)
         | Inr payload \<Rightarrow>
        (case ws_send (openAiWs c) (InputAudioBufferAppend payload) of
           Inl e \<Rightarrow> Raise e (w, c)
         | Inr ws \<Rightarrow> Ok (w, c\<lparr>openAiWs := ws\<rparr>))))
      else Ok (w, c))"

definition twilio_body :: "runtime \<Rightarrow> world \<times> conn \<Rightarrow> string \<Rightarrow> (world \<times> conn) res" where
  "twilio_body rt wc msg =
     (case JSON_parse rt msg of
        None \<Rightarrow> Raise SyntaxError wc
      | Some data \<Rightarrow>
          (case js_get data ''event'' of
             Inl e \<Rightarrow> Raise e wc
           | Inr ev \<Rightarrow>
               if ev = JStr ''start'' then twilio_start data wc
               else if ev = JStr ''media'' then twilio_media data wc
               else Ok wc))"

text \<open>\<open>connection.on('message')\<close>: the body above inside \<open>try\<close>, the \<open>catch\<close> logging.\<close>

definition on_twilio_message ::
  "runtime \<Rightarrow> world \<times> conn \<Rightarrow> string \<Rightarrow> (world \<times> conn) res" where
  "on_twilio_message rt wc msg =
     try_catch (twilio_body rt wc msg)
       (\<lambda>e wc'. Ok (console_error ''Error parsing message:'' e (fst wc'), snd wc'))"

subsection \<open>Events from the AI service\<close>

definition openai_audio_delta :: "jsval \<Rightarrow> jsval \<Rightarrow> world \<times> conn \<Rightarrow> (world \<times> conn) res" where
  "openai_audio_delta response ty wc =
     (case wc of (w, c) \<Rightarrow>
      if ty = JStr ''response.audio.delta'' then
        (case js_get response ''delta'' of
           Inl e \<Rightarrow> Raise e (w, c)
         | Inr delta \<Rightarrow>
             if truthy delta then
               (case ws_send (connection c) (MediaFrame (streamSid c) delta) of
                  Inl e \<Rightarrow> Raise e (w, c)
                | Inr ws \<Rightarrow> Ok (w, c\<lparr>connection := ws\<rparr>))
             else Ok (w, c))
      else Ok (w, c))"

text \<open>\<open>JSON.parse(response.arguments)\<close>: the argument is converted to a string first.\<close>

definition parse_arguments :: "runtime \<Rightarrow> jsval \<Rightarrow> error + jsval" where
  "parse_arguments rt response =
     (case js_get response ''arguments'' of
        Inl e \<Rightarrow> Inl e
      | Inr a \<Rightarrow>
          (case to_string a of
             Inl e \<Rightarrow> Inl e
           | Inr s \<Rightarrow> (case JSON_parse rt s of None \<Rightarrow> Inl SyntaxError | Some v \<Rightarrow> Inr v)))"

text \<open>The \<open>switch\<close> on the tool's name; \<open>None\<close> is the \<open>result\<close> no case has assigned.\<close>

definition tool_switch ::
  "runtime \<Rightarrow> world \<Rightarrow> jsval \<Rightarrow> jsval \<Rightarrow> error + (tool_result option \<times> world)" where
  "tool_switch rt w functionName args =
     (if functionName = JStr ''get_medical_history'' then
        (case getMedicalHistory rt w of (r, w1) \<Rightarrow> Inr (Some r, w1))
      else if functionName = JStr ''schedule_appointment'' then
        (case js_get args ''doctor'' of Inl e \<Rightarrow> Inl e | Inr doctor \<Rightarrow>
        (case js_get args ''date'' of Inl e \<Rightarrow> Inl e | Inr date \<Rightarrow>
        (case js_get args ''reason'' of Inl e \<Rightarrow> Inl e | Inr reason \<Rightarrow>
        (case scheduleAppointment w doctor date reason of (r, w1) \<Rightarrow> Inr (Some r, w1)))))
      else if functionName = JStr ''send_doctor_email'' then
        (case js_get args ''doctor'' of Inl e \<Rightarrow> Inl e | Inr doctor \<Rightarrow>
        (case js_get args ''subject'' of Inl e \<Rightarrow> Inl e | Inr subject \<Rightarrow>
        (case js_get args ''content'' of Inl e \<Rightarrow> Inl e | Inr content \<Rightarrow>
        (case sendDoctorEmail w doctor subject content of (r, w1) \<Rightarrow> Inr (Some r, w1)))))
      else Inr (None, w))"

text \<open>The function-call branch. The source tests the event type and parses the
  arguments twice, one block nested in the other; \<open>result.message\<close> is read whatever
  the \<open>switch\<close> did.\<close>

definition openai_function_call ::
  "runtime \<Rightarrow> jsval \<Rightarrow> jsval \<Rightarrow> world \<times> conn \<Rightarrow> (world \<times> conn) res" where
  "openai_function_call rt response ty wc =
     (case wc of (w, c) \<Rightarrow>
      if ty = JStr ''response.function_call_arguments.done'' then
        (case js_get response ''name'' of
           Inl e \<Rightarrow> Raise e (w, c)
         | Inr functionName \<Rightarrow>
        (case parse_arguments rt response of
           Inl e \<Rightarrow> Raise e (w, c)
         | Inr outer_args \<Rightarrow>
        (case parse_arguments rt response of
           Inl e \<Rightarrow> Raise e (w, c)
         | Inr args \<Rightarrow>
        (case tool_switch rt w functionName args of
           Inl e \<Rightarrow> Raise e (w, c)
         | Inr (result, w1) \<Rightarrow>
        (case result of
           None \<Rightarrow> Raise TypeError (w1, c)
         | Some r \<Rightarrow>
        (case ws_send (openAiWs c)
                (ConversationItemCreate (FunctionCallOutputItem (message r))) of
           Inl e \<Rightarrow> Raise e (w1, c)
         | Inr ws1 \<Rightarrow>
        (case ws_send ws1
                (ResponseCreateWith
                   (''Respond to the user based on this information: '' @ message r @
                    ''. Be professional and clear.'')) of
           Inl e \<Rightarrow> Raise e (w1, c\<lparr>openAiWs := ws1\<rparr>)
         | Inr ws2 \<Rightarrow> Ok (w1, c\<lparr>openAiWs := ws2\<rparr>))))))))
      else Ok (w, c))"

text \<open>\<open>content.find(content => content.transcript)\<close>\<close>

fun find_transcript :: "jsval list \<Rightarrow> error + jsval" where
  "find_transcript [] = Inr JUndefined"
| "find_transcript (x # xs) =
     (case js_get x ''transcript'' of
        Inl e \<Rightarrow> Inl e
      | Inr t \<Rightarrow> if truthy t then Inr x else find_transcript xs)"

text \<open>\<open>response.response.output[0]?.content?.find(...)?.transcript || 'Agent message not
  found'\<close>: \<open>find\<close> is a function on arrays only.\<close>

definition agent_message :: "jsval \<Rightarrow> error + jsval" where
  "agent_message response =
     (case js_get response ''response'' of Inl e \<Rightarrow> Inl e | Inr r \<Rightarrow>
     (case js_get r ''output'' of Inl e \<Rightarrow> Inl e | Inr output \<Rightarrow>
     (case js_index0 output of Inl e \<Rightarrow> Inl e | Inr first \<Rightarrow>
        (let content = js_opt_get first ''content'' in
         if nullish content then Inr (JStr ''Agent message not found'')
         else (case content of
                 JArr segments \<Rightarrow>
                   (case find_transcript segments of
                      Inl e \<Rightarrow> Inl e
                    | Inr found \<Rightarrow>
                        Inr (js_or (js_opt_get found ''transcript'')
                                   (JStr ''Agent message not found'')))
               | _ \<Rightarrow> Inl TypeError)))))"

text \<open>\<open>session.transcript += line\<close>\<close>

definition append_transcript :: "string \<Rightarrow> world \<times> conn \<Rightarrow> world \<times> conn" where
  "append_transcript line wc =
     (case wc of (w, c) \<Rightarrow>
      (w\<lparr>heap := (heap w)(session c :=
                  (heap w (session c))\<lparr>transcript := transcript (heap w (session c)) @ line\<rparr>)\<rparr>,
       c))"

definition openai_response_done :: "jsval \<Rightarrow> jsval \<Rightarrow> world \<times> conn \<Rightarrow> (world \<times> conn) res" where
  "openai_response_done response ty wc =
     (if ty = JStr ''response.done'' then
        (case agent_message response of
           Inl e \<Rightarrow> Raise e wc
         | Inr agentMessage \<Rightarrow>
             (case to_string agentMessage of
                Inl e \<Rightarrow> Raise e wc
              | Inr s \<Rightarrow> Ok (append_transcript (''Agent: '' @ s @ ''\<newline>'') wc)))
      else Ok wc)"

text \<open>The user's line; \<open>trim\<close> is a method of strings only.\<close>

definition openai_transcription :: "jsval \<Rightarrow> jsval \<Rightarrow> world \<times> conn \<Rightarrow> (world \<times> conn) res" where
  "openai_transcription response ty wc =
     (if ty = JStr ''conversation.item.input_audio_transcription.completed'' then
        (case js_get response ''transcript'' of
           Inl e \<Rightarrow> Raise e wc
         | Inr t \<Rightarrow>
             if truthy t then
               (case t of
                  JStr s \<Rightarrow> Ok (append_transcript (''User: '' @ trim s @ ''\<newline>'') wc)
                | _ \<Rightarrow> Raise TypeError wc)
             else Ok wc)
      else Ok wc)"

definition openai_body :: "runtime \<Rightarrow> world \<times> conn \<Rightarrow> string \<Rightarrow> (world \<times> conn) res" where
  "openai_body rt wc data =
     (case JSON_parse rt data of
        None \<Rightarrow> Raise SyntaxError wc
      | Some response \<Rightarrow>
          (case js_get response ''type'' of
             Inl e \<Rightarrow> Raise e wc
           | Inr ty \<Rightarrow>
               and_then
                 (and_then
                    (and_then (openai_audio_delta response ty wc)
                       (openai_function_call rt response ty))
                    (openai_response_done response ty))
                 (openai_transcription response ty)))"

text \<open>\<open>openAiWs.on('message')\<close>\<close>

definition on_openai_message ::
  "runtime \<Rightarrow> world \<times> conn \<Rightarrow> string \<Rightarrow> (world \<times> conn) res" where
  "on_openai_message rt wc data =
     try_catch (openai_body rt wc data)
       (\<lambda>e wc'. Ok (console_error ''Error processing OpenAI message:'' e (fst wc'), snd wc'))"

subsection \<open>Teardown\<close>

text \<open>\<open>connection.on('close')\<close>. The argument \<open>globalUser.id\<close> of the call to
  \<open>saveTranscript\<close> is evaluated in the handler itself, outside that function's \<open>try\<close>.\<close>

definition on_connection_close :: "nat \<Rightarrow> world \<times> conn \<Rightarrow> (world \<times> conn) res" where
  "on_connection_close now wc =
     (case wc of (w, c) \<Rightarrow>
      (let c1 = (if readyState (openAiWs c) = OPEN
                 then c\<lparr>openAiWs := (openAiWs c)\<lparr>readyState := CLOSING\<rparr>\<rparr>
                 else c)
       in case globalUser w of
            None \<Rightarrow> Raise TypeError (w, c1)
          | Some u \<Rightarrow>
              (case saveTranscript w now (u_id u) (transcript (heap w (session c))) of
                 (saved, w1) \<Rightarrow> Ok (w1\<lparr>sessions := (sessions w1)(sessionId c := None)\<rparr>, c1))))"

subsection \<open>A call as a sequence of events\<close>

text \<open>The events of one call in the order they arrive: a frame from the caller stream,
  the AI socket becoming open (its state is \<open>OPEN\<close> when the listener runs), a message
  from the AI service.\<close>

datatype event = TwilioMessage string | OpenAiOpen | OpenAiMessage string

definition step :: "runtime \<Rightarrow> world \<times> conn \<Rightarrow> event \<Rightarrow> (world \<times> conn) res" where
  "step rt wc ev =
     (case ev of
        TwilioMessage msg \<Rightarrow> on_twilio_message rt wc msg
      | OpenAiOpen \<Rightarrow>
          (case on_openai_open ((snd wc)\<lparr>openAiWs := (openAiWs (snd wc))\<lparr>readyState := OPEN\<rparr>\<rparr>) of
             Ok c \<Rightarrow> Ok (fst wc, c)
           | Raise e c \<Rightarrow> Raise e (fst wc, c))
      | OpenAiMessage data \<Rightarrow> on_openai_message rt wc data)"

fun run :: "runtime \<Rightarrow> world \<times> conn \<Rightarrow> event list \<Rightarrow> (world \<times> conn) res" where
  "run rt wc [] = Ok wc"
| "run rt wc (ev # evs) = and_then (step rt wc ev) (\<lambda>wc'. run rt wc' evs)"

section \<open>A server at start-up\<close>

text \<open>The sample patient and the two history rows of \<open>populate-db.js\<close>, the database
  that script leaves behind, and the process state when \<open>index.js\<close> has just started.\<close>

definition sampleUser :: user where
  "sampleUser =
     \<lparr>u_id = 1, u_user_id = ''12345678'', u_password = ''123456'',
      u_phone_number = ''+1234567890'', u_name = ''John Doe'',
      u_date_of_birth = ''1980-05-15'', u_allergies = ''Penicillin, Peanuts'',
      u_conditions = ''Hypertension, Asthma'',
      u_medications = ''Lisinopril 10mg, Albuterol inhaler'', u_last_visit = ''2024-03-15''\<rparr>"

definition sampleMedicalHistory :: "(int \<times> string \<times> jsval) list" where
  "sampleMedicalHistory =
     [(1, ''2024-03-15'',
       JObj [(''id'', JNum True ''1''), (''user_id'', JNum True ''1''),
             (''date'', JStr ''2024-03-15''), (''type'', JStr ''Check-up''),
             (''description'',
              JStr ''Regular blood pressure check. BP: 125/82. Prescribed medication refill.''),
             (''doctor'', JStr ''Dr. Smith'')]),
      (1, ''2024-02-01'',
       JObj [(''id'', JNum True ''2''), (''user_id'', JNum True ''1''),
             (''date'', JStr ''2024-02-01''), (''type'', JStr ''Urgent Care''),
             (''description'',
              JStr ''Acute asthma exacerbation. Administered nebulizer treatment.''),
             (''doctor'', JStr ''Dr. Johnson'')])]"

definition populated_db :: database where
  "populated_db =
     \<lparr>users = Some [sampleUser], appointments = Some [], emails = Some [], calls = Some [],
      medical_history = Some sampleMedicalHistory\<rparr>"

definition server_start :: "database \<Rightarrow> world" where
  "server_start d =
     \<lparr>globalUser = None, db = d, loginAttempts = Map.empty, sessions = Map.empty,
      heap = (\<lambda>r. \<lparr>transcript = [], s_streamSid = JNull, callerNumber = JUndefined\<rparr>),
      next_ref = 0, console = []\<rparr>"

text \<open>A runtime for worked examples: its parser knows exactly the listed frame texts
  (each text stands for the JSON of the value beside it) and rejects every other text.\<close>

definition table_runtime :: "(string \<times> jsval) list \<Rightarrow> runtime" where
  "table_runtime frames = \<lparr>JSON_parse = map_of frames, JSON_stringify = (\<lambda>v. ''{}'')\<rparr>"

text \<open>The connection of a first caller stream that carries no call-sid header.\<close>

definition first_call :: "world \<Rightarrow> world \<times> conn" where
  "first_call w = media_stream_connect w None 0"

definition state_of :: "'s res \<Rightarrow> 's" where
  "state_of r = (case r of Ok s \<Rightarrow> s | Raise e s \<Rightarrow> s)"

section \<open>What the properties measure, and example frames\<close>

text \<open>The states of the two sockets of a call.\<close>

definition socket_states :: "world \<times> conn \<Rightarrow> ready_state \<times> ready_state" where
  "socket_states wc = (readyState (openAiWs (snd wc)), readyState (connection (snd wc)))"

text \<open>The first conversational turn is the only \<open>conversation.item.create\<close> event whose
  item is a message; \<open>first_turns\<close> keeps those of the events sent to the AI service.\<close>

definition is_first_turn :: "ai_event \<Rightarrow> bool" where
  "is_first_turn ev =
     (case ev of
        ConversationItemCreate it \<Rightarrow>
          (case it of MessageItem t \<Rightarrow> True | FunctionCallOutputItem s \<Rightarrow> False)
      | _ \<Rightarrow> False)"

definition first_turns :: "ai_event list \<Rightarrow> ai_event list" where
  "first_turns evs = filter is_first_turn evs"

text \<open>What decides the delivery of the first turn: the ready flag, the queue, the state
  of the AI socket, and the first turns sent so far.\<close>

definition first_turn_state ::
  "world \<times> conn \<Rightarrow> bool \<times> ai_event option \<times> ready_state \<times> ai_event list" where
  "first_turn_state wc =
     (openAiWsReady (snd wc), queuedFirstMessage (snd wc), readyState (openAiWs (snd wc)),
      first_turns (sent (openAiWs (snd wc))))"

definition is_start_frame :: "runtime \<Rightarrow> string \<Rightarrow> bool" where
  "is_start_frame rt msg =
     (case JSON_parse rt msg of
        None \<Rightarrow> False
      | Some data \<Rightarrow> js_get data ''event'' = Inr (JStr ''start''))"

text \<open>Every event of a call but the stream's start frame and the AI socket's opening.\<close>

definition other_event :: "runtime \<Rightarrow> event \<Rightarrow> bool" where
  "other_event rt ev =
     (case ev of
        TwilioMessage msg \<Rightarrow> \<not> is_start_frame rt msg
      | OpenAiOpen \<Rightarrow> False
      | OpenAiMessage data \<Rightarrow> True)"

definition unknown_tool_event :: jsval where
  "unknown_tool_event =
     JObj [(''type'', JStr ''response.function_call_arguments.done''),
           (''name'', JStr ''cancel_appointment''),
           (''arguments'', JStr ''{}'')]"

text \<open>A start frame as the password route's TwiML makes the stream send it, a start
  frame without custom parameters, and a media frame.\<close>

definition start_event :: jsval where
  "start_event =
     JObj [(''event'', JStr ''start''),
           (''start'',
            JObj [(''streamSid'', JStr ''MZ1''), (''callSid'', JStr ''CA1''),
                  (''customParameters'',
                   JObj [(''firstMessage'', JStr ''Welcome back John Doe.''),
                         (''callerNumber'', JStr ''+1234567890'')])])]"

definition bare_start_event :: jsval where
  "bare_start_event =
     JObj [(''event'', JStr ''start''),
           (''start'', JObj [(''streamSid'', JStr ''MZ1''), (''callSid'', JStr ''CA1'')])]"

definition media_event :: jsval where
  "media_event =
     JObj [(''event'', JStr ''media''), (''media'', JObj [(''payload'', JStr ''fn5+fw=='')])]"

text \<open>What every state of a call satisfies: the ready flag is set only once the AI socket
  has left the connecting state.\<close>

definition conn_ok :: "world \<times> conn \<Rightarrow> bool" where
  "conn_ok wc = (if openAiWsReady (snd wc) then readyState (openAiWs (snd wc)) \<noteq> CONNECTING else True)"

subsection \<open>Tool calls: what the dispatcher sends back, and example calls\<close>

definition tool_reply :: "conn \<Rightarrow> string \<Rightarrow> conn" where
  "tool_reply c m =
     c\<lparr>openAiWs := (openAiWs c)
          \<lparr>sent := sent (openAiWs c) @
             [ConversationItemCreate (FunctionCallOutputItem m),
              ResponseCreateWith
                (''Respond to the user based on this information: '' @ m @
                 ''. Be professional and clear.'')]\<rparr>\<rparr>"

definition schedule_event :: jsval where
  "schedule_event =
     JObj [(''type'', JStr ''response.function_call_arguments.done''),
           (''name'', JStr ''schedule_appointment''),
           (''arguments'', JStr ''schedule arguments'')]"

definition schedule_arguments :: jsval where
  "schedule_arguments =
     JObj [(''doctor'', JStr ''Dr. Smith''), (''date'', JStr ''2024-04-01''),
           (''reason'', JStr ''follow-up'')]"

definition tools_runtime :: runtime where
  "tools_runtime =
     table_runtime [(''schedule'', schedule_event), (''schedule arguments'', schedule_arguments)]"

text \<open>The state of a call once its AI socket has opened.\<close>

definition opened :: "world \<times> conn \<Rightarrow> world \<times> conn" where
  "opened wc = state_of (step (table_runtime []) wc OpenAiOpen)"

text \<open>The process after the sample patient has entered the right password, and a call
  of theirs with the AI socket open; the same on a database whose \<open>appointments\<close>
  table is missing; and a call on a server where nobody has signed in.\<close>

definition signed_in :: "database \<Rightarrow> world" where
  "signed_in d = snd (process_password (server_start d) ''12345678'' ''123456'')"

definition signed_in_call :: "world \<times> conn" where
  "signed_in_call = opened (first_call (signed_in populated_db))"

definition no_table_call :: "world \<times> conn" where
  "no_table_call = opened (first_call (signed_in (populated_db\<lparr>appointments := None\<rparr>)))"

definition anonymous_call :: "world \<times> conn" where
  "anonymous_call = opened (first_call (server_start populated_db))"

text \<open>A caller stream that connects straight to the media-stream route, nobody having
  entered a password for it, with its AI socket open.\<close>

definition walk_in_call :: "world \<Rightarrow> world \<times> conn" where
  "walk_in_call w = opened (media_stream_connect w (Some ''CA-walk-in'') 0)"

subsection \<open>The transcript, and example utterances\<close>

definition session_transcript :: "world \<times> conn \<Rightarrow> string" where
  "session_transcript wc = transcript (heap (fst wc) (session (snd wc)))"

definition user_utterance_event :: jsval where
  "user_utterance_event =
     JObj [(''type'', JStr ''conversation.item.input_audio_transcription.completed''),
           (''transcript'', JStr ''I need a refill'')]"

definition agent_utterance_event :: jsval where
  "agent_utterance_event =
     JObj [(''type'', JStr ''response.done''),
           (''response'',
            JObj [(''output'',
                   JArr [JObj [(''type'', JStr ''message''),
                               (''content'',
                                JArr [JObj [(''type'', JStr ''audio''),
                                            (''transcript'', JStr ''I can help with that'')]])]])])]"

definition silent_response_event :: jsval where
  "silent_response_event =
     JObj [(''type'', JStr ''response.done''), (''response'', JObj [(''output'', JArr [])])]"

text \<open>A transcription as the speech model delivers it, with white space around the
  words; a completed response whose content is a string, not an array; and one whose
  first content segment is \<open>null\<close>.\<close>

definition padded_utterance_event :: jsval where
  "padded_utterance_event =
     JObj [(''type'', JStr ''conversation.item.input_audio_transcription.completed''),
           (''transcript'', JStr '' I need a refill\<newline>'')]"

definition text_content_event :: jsval where
  "text_content_event =
     JObj [(''type'', JStr ''response.done''),
           (''response'', JObj [(''output'', JArr [JObj [(''content'', JStr ''abc'')]])])]"

definition null_segment_event :: jsval where
  "null_segment_event =
     JObj [(''type'', JStr ''response.done''),
           (''response'',
            JObj [(''output'',
                   JArr [JObj [(''content'',
                                JArr [JNull, JObj [(''transcript'', JStr ''late'')]])]])])]"

definition transcript_runtime :: runtime where
  "transcript_runtime =
     table_runtime [(''user'', user_utterance_event), (''agent'', agent_utterance_event),
                    (''silent'', silent_response_event), (''padded'', padded_utterance_event),
                    (''text content'', text_content_event),
                    (''null segment'', null_segment_event)]"

definition is_array :: "jsval \<Rightarrow> bool" where
  "is_array v = (case v of JArr xs \<Rightarrow> True | _ \<Rightarrow> False)"

subsection \<open>Two patients\<close>






subsection \<open>Password attempts in a row\<close>

text \<open>The answers to a series of password entries for one identifier.\<close>

fun attempts_run :: "world \<Rightarrow> string \<Rightarrow> string list \<Rightarrow> twiml list \<times> world" where
  "attempts_run w userId [] = ([], w)"
| "attempts_run w userId (p # ps) =
     (case process_password w userId p of
        (r, w1) \<Rightarrow> (case attempts_run w1 userId ps of (rs, w2) \<Rightarrow> (r # rs, w2)))"

section \<open>Basic facts\<close>

text \<open>The history query on the sample rows: the March visit comes before the February
  one; rows of other users are left out; two visits of one day stay in the order they
  were inserted.\<close>

lemma select_history_sample:
  "select_history sampleMedicalHistory 1 =
     map (\<lambda>r. snd (snd r)) sampleMedicalHistory"
  "select_history sampleMedicalHistory 2 = []"
  "select_history (rev sampleMedicalHistory) 1 =
     map (\<lambda>r. snd (snd r)) sampleMedicalHistory"
  "select_history [(1, ''2024-03-15'', JStr ''morning''), (2, ''2024-03-15'', JStr ''other''),
                   (1, ''2024-03-15'', JStr ''evening''), (1, ''2024-04-01'', JStr ''april'')] 1 =
     [JStr ''april'', JStr ''morning'', JStr ''evening'']"
  by (simp_all add: select_history_def sampleMedicalHistory_def)

text \<open>What a template literal splices in: a number as JavaScript prints it, an array
  as its elements joined by commas.\<close>

lemma to_string_examples:
  "to_string (JNum True ''1e+21'') = Inr ''1e+21''"
  "to_string (JArr [JStr ''a'', JNull, JNum True ''2.5'', JArr [JBool True]]) = Inr ''a,,2.5,true''"
  "to_string (JObj [(''doctor'', JStr ''Dr. Smith'')]) = Inr ''[object Object]''"
  "to_string (JObj [(''toString'', JNull)]) = Inl TypeError"
  by (simp_all add: nullish_def)

lemma and_then_simps:
  "and_then (Ok s) f = f s"
  "and_then (Raise e s) f = Raise e s"
  by (simp_all add: and_then_def)

lemma try_catch_simps:
  "try_catch (Ok s) h = Ok s"
  "try_catch (Raise e s) h = h e s"
  by (simp_all add: try_catch_def)

lemma state_of_simps:
  "state_of (Ok s) = s"
  "state_of (Raise e s) = s"
  by (simp_all add: state_of_def)

lemma js_get_not_nullish: "js_get v k = Inr x \<Longrightarrow> \<not> nullish v"
  by (cases v) (auto simp: nullish_def)

lemma js_get_total: "\<not> nullish v \<Longrightarrow> \<exists>x. js_get v k = Inr x"
  by (cases v) (auto simp: nullish_def)

section \<open>Tool calls with an unknown name\<close>

lemma tool_switch_unknown:
  "functionName \<noteq> JStr ''get_medical_history'' \<Longrightarrow>
   functionName \<noteq> JStr ''schedule_appointment'' \<Longrightarrow>
   functionName \<noteq> JStr ''send_doctor_email'' \<Longrightarrow>
   tool_switch rt w functionName args = Inr (None, w)"
  by (simp add: tool_switch_def)

lemma function_call_unknown:
  assumes "functionName \<noteq> JStr ''get_medical_history''"
    and "functionName \<noteq> JStr ''schedule_appointment''"
    and "functionName \<noteq> JStr ''send_doctor_email''"
    and "js_get response ''name'' = Inr functionName"
  shows "\<exists>e. openai_function_call rt response
                (JStr ''response.function_call_arguments.done'') (w, c) = Raise e (w, c)"
  using assms
  by (cases "parse_arguments rt response")
     (simp_all add: openai_function_call_def tool_switch_unknown)

text \<open>
  Claim C7. A function-call-arguments-done event whose tool name is none of
  \<open>get_medical_history\<close>, \<open>schedule_appointment\<close>, \<open>send_doctor_email\<close> runs no backend
  action and sends nothing: the \<open>switch\<close> leaves \<open>result\<close> unassigned and the process
  state as it was, and the whole handler changes nothing but the console, where the
  \<open>catch\<close> logs the error that reading \<open>result.message\<close> (or parsing the arguments)
  throws. Database, bound profile, transcript and both sockets, hence everything sent to
  the AI service, are exactly as before.
\<close>

theorem C7_unknown_tool_no_op:
  assumes "JSON_parse rt data = Some response"
    and "js_get response ''type'' = Inr (JStr ''response.function_call_arguments.done'')"
    and "js_get response ''name'' = Inr functionName"
    and "functionName \<noteq> JStr ''get_medical_history''"
    and "functionName \<noteq> JStr ''schedule_appointment''"
    and "functionName \<noteq> JStr ''send_doctor_email''"
  shows "tool_switch rt w functionName args = Inr (None, w) \<and>
         (\<exists>e. on_openai_message rt (w, c) data =
               Ok (w\<lparr>console := console w @ [LogError ''Error processing OpenAI message:'' e]\<rparr>,
                   c))"
proof -
  obtain e where e:
    "openai_function_call rt response (JStr ''response.function_call_arguments.done'') (w, c)
       = Raise e (w, c)"
    using function_call_unknown[OF assms(4-6) assms(3)] by blast
  have "openai_audio_delta response (JStr ''response.function_call_arguments.done'') (w, c)
          = Ok (w, c)"
    by (simp add: openai_audio_delta_def)
  then have "openai_body rt (w, c) data = Raise e (w, c)"
    using assms(1,2) e by (simp add: openai_body_def and_then_simps)
  then have "on_openai_message rt (w, c) data =
      Ok (w\<lparr>console := console w @ [LogError ''Error processing OpenAI message:'' e]\<rparr>, c)"
    by (simp add: on_openai_message_def try_catch_simps console_error_def)
  then show ?thesis
    using tool_switch_unknown[OF assms(4-6)] by blast
qed

theorem C7_unknown_tool_no_op_witness:
  "tool_switch (table_runtime [(''unknown tool'', unknown_tool_event), (''{}'', JObj [])])
     (server_start populated_db) (JStr ''cancel_appointment'') (JObj [])
     = Inr (None, server_start populated_db) \<and>
   (\<exists>e. on_openai_message
           (table_runtime [(''unknown tool'', unknown_tool_event), (''{}'', JObj [])])
           (server_start populated_db, snd (first_call (server_start populated_db)))
           ''unknown tool''
         = Ok ((server_start populated_db)
                 \<lparr>console := console (server_start populated_db) @
                     [LogError ''Error processing OpenAI message:'' e]\<rparr>,
               snd (first_call (server_start populated_db))))"
  using C7_unknown_tool_no_op
    [of "table_runtime [(''unknown tool'', unknown_tool_event), (''{}'', JObj [])]"
        "''unknown tool''" unknown_tool_event "JStr ''cancel_appointment''"
        "server_start populated_db" "JObj []" "snd (first_call (server_start populated_db))"]
  by (simp add: table_runtime_def unknown_tool_event_def)

section \<open>Malformed frames\<close>

lemma ws_send_readyState: "ws_send ws m = Inr ws' \<Longrightarrow> readyState ws' = readyState ws"
  by (auto simp: ws_send_def split: ready_state.splits)

lemma sendFirstMessage_sockets:
  "sendFirstMessage c = Ok c' \<or> sendFirstMessage c = Raise e c' \<Longrightarrow>
   readyState (openAiWs c') = readyState (openAiWs c) \<and>
   readyState (connection c') = readyState (connection c)"
  by (auto simp: sendFirstMessage_def dest!: ws_send_readyState split: option.splits sum.splits if_splits)

lemma twilio_start_sockets: "socket_states (state_of (twilio_start data wc)) = socket_states wc"
proof (cases wc)
  case (Pair w c)
  show ?thesis
    unfolding Pair twilio_start_def socket_states_def state_of_def Let_def
    by (auto split: sum.splits res.splits dest!: sendFirstMessage_sockets[OF disjI1] sendFirstMessage_sockets[OF disjI2])
qed

lemma twilio_media_sockets: "socket_states (state_of (twilio_media data wc)) = socket_states wc"
  by (cases wc) (auto simp: twilio_media_def socket_states_def state_of_def split: sum.splits dest!: ws_send_readyState)

lemma twilio_body_sockets: "socket_states (state_of (twilio_body rt wc msg)) = socket_states wc"
  using twilio_start_sockets twilio_media_sockets
  by (auto simp: twilio_body_def state_of_simps split: option.splits sum.splits)

lemma on_twilio_message_Ok: "\<exists>wc'. on_twilio_message rt wc msg = Ok wc' \<and> socket_states wc' = socket_states wc"
proof (cases "twilio_body rt wc msg")
  case (Ok s)
  then show ?thesis using twilio_body_sockets[of rt wc msg]
    by (simp add: on_twilio_message_def try_catch_simps state_of_simps)
next
  case (Raise e s)
  then show ?thesis using twilio_body_sockets[of rt wc msg]
    by (simp add: on_twilio_message_def try_catch_simps state_of_simps socket_states_def)
qed

lemma audio_delta_sockets: "socket_states (state_of (openai_audio_delta response ty wc)) = socket_states wc"
  by (cases wc) (auto simp: openai_audio_delta_def socket_states_def state_of_def split: sum.splits dest!: ws_send_readyState)

lemma function_call_sockets: "socket_states (state_of (openai_function_call rt response ty wc)) = socket_states wc"
  by (cases wc) (auto simp: openai_function_call_def socket_states_def state_of_def split: sum.splits option.splits dest!: ws_send_readyState)

lemma response_done_sockets: "socket_states (state_of (openai_response_done response ty wc)) = socket_states wc"
  by (cases wc) (auto simp: openai_response_done_def append_transcript_def socket_states_def state_of_def split: sum.splits)

lemma transcription_sockets: "socket_states (state_of (openai_transcription response ty wc)) = socket_states wc"
  by (cases wc) (auto simp: openai_transcription_def append_transcript_def socket_states_def state_of_def split: sum.splits jsval.splits)

lemma and_then_preserves:
  assumes "Q (state_of r) = q" and "\<And>s. Q (state_of (f s)) = Q s"
  shows "Q (state_of (and_then r f)) = q"
  using assms by (cases r) (auto simp: and_then_def state_of_def)

lemma openai_body_sockets: "socket_states (state_of (openai_body rt wc data)) = socket_states wc"
  unfolding openai_body_def
  by (auto simp: state_of_simps split: option.splits sum.splits
      intro!: and_then_preserves audio_delta_sockets function_call_sockets response_done_sockets transcription_sockets)

lemma on_openai_message_Ok: "\<exists>wc'. on_openai_message rt wc data = Ok wc' \<and> socket_states wc' = socket_states wc"
proof (cases "openai_body rt wc data")
  case (Ok s)
  then show ?thesis using openai_body_sockets[of rt wc data]
    by (simp add: on_openai_message_def try_catch_simps state_of_simps)
next
  case (Raise e s)
  then show ?thesis using openai_body_sockets[of rt wc data]
    by (simp add: on_openai_message_def try_catch_simps state_of_simps socket_states_def)
qed

text \<open>
  Claim C9. For every frame on either socket, in every state: the handler returns
  normally (it never raises to its caller) and leaves the state of both sockets as it
  was, so no frame terminates a connection. A frame that fails to parse changes nothing
  but the console, which gains exactly one entry, the handler's label with the
  SyntaxError, and the events that follow it are handled from that same state: only the
  one frame is dropped. A frame whose handling raises adds one entry to the console in
  the same way, the label with the error raised, and the handler keeps what had been
  written before the error.
\<close>

theorem C9_malformed_frame_logged_and_dropped:
  "(\<exists>wc'. on_twilio_message rt wc msg = Ok wc' \<and> socket_states wc' = socket_states wc) \<and>
   (\<exists>wc'. on_openai_message rt wc msg = Ok wc' \<and> socket_states wc' = socket_states wc) \<and>
   (JSON_parse rt msg = None \<longrightarrow>
      on_twilio_message rt wc msg =
        Ok ((fst wc)
              \<lparr>console := console (fst wc)
                 @ [LogError ''Error parsing message:'' SyntaxError]\<rparr>, snd wc) \<and>
      on_openai_message rt wc msg =
        Ok ((fst wc)
              \<lparr>console := console (fst wc)
                 @ [LogError ''Error processing OpenAI message:'' SyntaxError]\<rparr>, snd wc) \<and>
      run rt wc (TwilioMessage msg # evs) =
        run rt ((fst wc)
              \<lparr>console := console (fst wc)
                 @ [LogError ''Error parsing message:'' SyntaxError]\<rparr>, snd wc) evs \<and>
      run rt wc (OpenAiMessage msg # evs) =
        run rt ((fst wc)
              \<lparr>console := console (fst wc)
                 @ [LogError ''Error processing OpenAI message:'' SyntaxError]\<rparr>, snd wc) evs) \<and>
   (twilio_body rt wc msg = Raise e s \<longrightarrow>
      on_twilio_message rt wc msg = Ok ((fst s)
            \<lparr>console := console (fst s)
               @ [LogError ''Error parsing message:'' e]\<rparr>, snd s)) \<and>
   (openai_body rt wc msg = Raise e s \<longrightarrow>
      on_openai_message rt wc msg =
        Ok ((fst s)
              \<lparr>console := console (fst s)
                 @ [LogError ''Error processing OpenAI message:'' e]\<rparr>, snd s))"
proof -
  have parse: "JSON_parse rt msg = None \<Longrightarrow>
      on_twilio_message rt wc msg =
        Ok ((fst wc)
              \<lparr>console := console (fst wc)
                 @ [LogError ''Error parsing message:'' SyntaxError]\<rparr>, snd wc) \<and>
      on_openai_message rt wc msg =
        Ok ((fst wc)
              \<lparr>console := console (fst wc)
                 @ [LogError ''Error processing OpenAI message:'' SyntaxError]\<rparr>, snd wc)"
    by (simp add: on_twilio_message_def twilio_body_def on_openai_message_def openai_body_def
        try_catch_simps console_error_def)
  then have "JSON_parse rt msg = None \<Longrightarrow>
      run rt wc (TwilioMessage msg # evs) =
        run rt ((fst wc)
              \<lparr>console := console (fst wc)
                 @ [LogError ''Error parsing message:'' SyntaxError]\<rparr>, snd wc) evs \<and>
      run rt wc (OpenAiMessage msg # evs) =
        run rt ((fst wc)
              \<lparr>console := console (fst wc)
                 @ [LogError ''Error processing OpenAI message:'' SyntaxError]\<rparr>, snd wc) evs"
    by (simp add: step_def and_then_simps)
  moreover have "twilio_body rt wc msg = Raise e s \<Longrightarrow>
      on_twilio_message rt wc msg = Ok ((fst s)
            \<lparr>console := console (fst s)
               @ [LogError ''Error parsing message:'' e]\<rparr>, snd s)"
    by (simp add: on_twilio_message_def try_catch_simps console_error_def)
  moreover have "openai_body rt wc msg = Raise e s \<Longrightarrow>
      on_openai_message rt wc msg =
        Ok ((fst s)
              \<lparr>console := console (fst s)
                 @ [LogError ''Error processing OpenAI message:'' e]\<rparr>, snd s)"
    by (simp add: on_openai_message_def try_catch_simps console_error_def)
  ultimately show ?thesis
    using parse on_twilio_message_Ok[of rt wc msg] on_openai_message_Ok[of rt wc msg] by blast
qed

theorem C9_malformed_frame_logged_and_dropped_witness:
  "JSON_parse (table_runtime [(''null'', JNull)]) ''{not json'' = None \<and>
   on_twilio_message (table_runtime [(''null'', JNull)])
       (first_call (server_start populated_db)) ''{not json'' =
     Ok ((fst (first_call (server_start populated_db)))
           \<lparr>console := console (fst (first_call (server_start populated_db)))
              @ [LogError ''Error parsing message:'' SyntaxError]\<rparr>,
         snd (first_call (server_start populated_db))) \<and>
   on_openai_message (table_runtime [(''null'', JNull)])
       (first_call (server_start populated_db)) ''{not json'' =
     Ok ((fst (first_call (server_start populated_db)))
           \<lparr>console := console (fst (first_call (server_start populated_db)))
              @ [LogError ''Error processing OpenAI message:'' SyntaxError]\<rparr>,
         snd (first_call (server_start populated_db))) \<and>
   twilio_body (table_runtime [(''null'', JNull)])
       (first_call (server_start populated_db)) ''null'' =
     Raise TypeError (first_call (server_start populated_db)) \<and>
   on_twilio_message (table_runtime [(''null'', JNull)])
       (first_call (server_start populated_db)) ''null'' =
     Ok ((fst (first_call (server_start populated_db)))
           \<lparr>console := console (fst (first_call (server_start populated_db)))
              @ [LogError ''Error parsing message:'' TypeError]\<rparr>,
         snd (first_call (server_start populated_db))) \<and>
   openai_body (table_runtime [(''null'', JNull)])
       (first_call (server_start populated_db)) ''null'' =
     Raise TypeError (first_call (server_start populated_db)) \<and>
   on_openai_message (table_runtime [(''null'', JNull)])
       (first_call (server_start populated_db)) ''null'' =
     Ok ((fst (first_call (server_start populated_db)))
           \<lparr>console := console (fst (first_call (server_start populated_db)))
              @ [LogError ''Error processing OpenAI message:'' TypeError]\<rparr>,
         snd (first_call (server_start populated_db)))"
  using C9_malformed_frame_logged_and_dropped
      [where rt = "table_runtime [(''null'', JNull)]"
         and wc = "first_call (server_start populated_db)" and msg = "''{not json''"]
    C9_malformed_frame_logged_and_dropped
      [where rt = "table_runtime [(''null'', JNull)]"
         and wc = "first_call (server_start populated_db)" and msg = "''null''"
         and e = TypeError and s = "first_call (server_start populated_db)"]
  by (simp add: table_runtime_def twilio_body_def openai_body_def)

section \<open>Caller audio\<close>

text \<open>
  Claim C4. For a media frame from the caller stream: when the AI socket is open, the
  handler sends exactly one \<open>input_audio_buffer.append\<close> event whose audio is the
  frame's payload, unchanged, and changes nothing else; when the AI socket is not open,
  the handler returns normally and leaves the whole state as it was (nothing sent,
  nothing queued, nothing logged).
\<close>

theorem C4_media_forwarded_or_dropped:
  assumes "JSON_parse rt msg = Some data"
    and "js_get data ''event'' = Inr (JStr ''media'')"
  shows "(readyState (openAiWs c) = OPEN \<and> js_get data ''media'' = Inr media \<and>
          js_get media ''payload'' = Inr payload \<longrightarrow>
            on_twilio_message rt (w, c) msg =
              Ok (w, c\<lparr>openAiWs := (openAiWs c)\<lparr>sent := sent (openAiWs c) @
                                       [InputAudioBufferAppend payload]\<rparr>\<rparr>)) \<and>
         (readyState (openAiWs c) \<noteq> OPEN \<longrightarrow> on_twilio_message rt (w, c) msg = Ok (w, c))"
  using assms
  by (simp add: on_twilio_message_def twilio_body_def twilio_media_def ws_send_def try_catch_simps)

theorem C4_media_forwarded_or_dropped_witness:
  "on_twilio_message (table_runtime [(''media'', media_event)])
     (server_start populated_db,
      (snd (first_call (server_start populated_db)))
        \<lparr>openAiWs := \<lparr>readyState = OPEN, sent = []\<rparr>\<rparr>) ''media'' =
     Ok (server_start populated_db,
         (snd (first_call (server_start populated_db)))
           \<lparr>openAiWs := \<lparr>readyState = OPEN,
                          sent = [InputAudioBufferAppend (JStr ''fn5+fw=='')]\<rparr>\<rparr>) \<and>
   on_twilio_message (table_runtime [(''media'', media_event)])
     (server_start populated_db,
      (snd (first_call (server_start populated_db)))
        \<lparr>openAiWs := \<lparr>readyState = CLOSED, sent = []\<rparr>\<rparr>) ''media'' =
     Ok (server_start populated_db,
         (snd (first_call (server_start populated_db)))
           \<lparr>openAiWs := \<lparr>readyState = CLOSED, sent = []\<rparr>\<rparr>)"
  using C4_media_forwarded_or_dropped
      [where rt = "table_runtime [(''media'', media_event)]" and msg = "''media''"
         and data = media_event and w = "server_start populated_db"
         and c = "(snd (first_call (server_start populated_db)))
                    \<lparr>openAiWs := \<lparr>readyState = OPEN, sent = []\<rparr>\<rparr>"
         and media = "JObj [(''payload'', JStr ''fn5+fw=='')]" and payload = "JStr ''fn5+fw==''"]
    C4_media_forwarded_or_dropped
      [where rt = "table_runtime [(''media'', media_event)]" and msg = "''media''"
         and data = media_event and w = "server_start populated_db"
         and c = "(snd (first_call (server_start populated_db)))
                    \<lparr>openAiWs := \<lparr>readyState = CLOSED, sent = []\<rparr>\<rparr>"]
  by (simp add: table_runtime_def media_event_def)

section \<open>The first conversational turn\<close>

lemma ws_send_first_turns:
  "ws_send ws m = Inr ws' \<Longrightarrow>
   readyState ws' = readyState ws \<and>
   first_turns (sent ws') =
     first_turns (sent ws) @ (if readyState ws = OPEN \<and> is_first_turn m then [m] else [])"
  by (auto simp: ws_send_def first_turns_def split: ready_state.splits)

lemma twilio_media_fts:
  "first_turn_state (state_of (twilio_media data wc)) = first_turn_state wc"
  by (cases wc)
     (auto simp: twilio_media_def first_turn_state_def state_of_def is_first_turn_def
           split: sum.splits dest!: ws_send_first_turns)

lemma audio_delta_fts:
  "first_turn_state (state_of (openai_audio_delta response ty wc)) = first_turn_state wc"
  by (cases wc)
     (auto simp: openai_audio_delta_def first_turn_state_def state_of_def split: sum.splits)

lemma function_call_fts:
  "first_turn_state (state_of (openai_function_call rt response ty wc)) = first_turn_state wc"
  by (cases wc)
     (auto simp: openai_function_call_def first_turn_state_def state_of_def is_first_turn_def
           split: sum.splits option.splits dest!: ws_send_first_turns)

lemma response_done_fts:
  "first_turn_state (state_of (openai_response_done response ty wc)) = first_turn_state wc"
  by (cases wc)
     (auto simp: openai_response_done_def append_transcript_def first_turn_state_def state_of_def
           split: sum.splits)

lemma transcription_fts:
  "first_turn_state (state_of (openai_transcription response ty wc)) = first_turn_state wc"
  by (cases wc)
     (auto simp: openai_transcription_def append_transcript_def first_turn_state_def state_of_def
           split: sum.splits jsval.splits)

lemma openai_body_fts:
  "first_turn_state (state_of (openai_body rt wc data)) = first_turn_state wc"
  unfolding openai_body_def
  by (auto simp: state_of_simps split: option.splits sum.splits
      intro!: and_then_preserves audio_delta_fts function_call_fts response_done_fts
              transcription_fts)

lemma on_openai_message_fts:
  "\<exists>wc'. on_openai_message rt wc data = Ok wc' \<and> first_turn_state wc' = first_turn_state wc"
proof (cases "openai_body rt wc data")
  case (Ok s)
  then show ?thesis using openai_body_fts[of rt wc data]
    by (simp add: on_openai_message_def try_catch_simps state_of_simps)
next
  case (Raise e s)
  then show ?thesis using openai_body_fts[of rt wc data]
    by (simp add: on_openai_message_def try_catch_simps state_of_simps first_turn_state_def)
qed

lemma twilio_other_body_fts:
  "\<not> is_start_frame rt msg \<Longrightarrow>
   first_turn_state (state_of (twilio_body rt wc msg)) = first_turn_state wc"
  using twilio_media_fts
  by (auto simp: twilio_body_def is_start_frame_def state_of_simps split: option.splits sum.splits)

lemma on_twilio_other_fts:
  assumes "\<not> is_start_frame rt msg"
  shows "\<exists>wc'. on_twilio_message rt wc msg = Ok wc' \<and> first_turn_state wc' = first_turn_state wc"
proof (cases "twilio_body rt wc msg")
  case (Ok s)
  then show ?thesis using twilio_other_body_fts[OF assms, of wc]
    by (simp add: on_twilio_message_def try_catch_simps state_of_simps)
next
  case (Raise e s)
  then show ?thesis using twilio_other_body_fts[OF assms, of wc]
    by (simp add: on_twilio_message_def try_catch_simps state_of_simps first_turn_state_def)
qed

lemma step_other_fts:
  "other_event rt ev \<Longrightarrow>
   \<exists>wc'. step rt wc ev = Ok wc' \<and> first_turn_state wc' = first_turn_state wc"
  using on_twilio_other_fts on_openai_message_fts
  by (cases ev) (auto simp: other_event_def step_def)

lemma run_append: "run rt wc (xs @ ys) = and_then (run rt wc xs) (\<lambda>wc'. run rt wc' ys)"
proof (induction xs arbitrary: wc)
  case Nil
  show ?case by (simp add: and_then_simps)
next
  case (Cons x xs)
  show ?case
    by (cases "step rt wc x") (simp_all add: and_then_simps Cons.IH)
qed

lemma run_others_fts:
  "list_all (other_event rt) evs \<Longrightarrow>
   \<exists>wc'. run rt wc evs = Ok wc' \<and> first_turn_state wc' = first_turn_state wc"
proof (induction evs arbitrary: wc)
  case Nil
  show ?case by simp
next
  case (Cons ev evs)
  then obtain wc1 where s: "step rt wc ev = Ok wc1" "first_turn_state wc1 = first_turn_state wc"
    using step_other_fts[of rt ev wc] by fastforce
  from Cons.prems have "list_all (other_event rt) evs" by simp
  from Cons.IH[OF this, of wc1]
  obtain wc2 where "run rt wc1 evs = Ok wc2" "first_turn_state wc2 = first_turn_state wc1"
    by blast
  with s show ?case by (simp add: and_then_simps)
qed

lemma sendFirstMessage_open:
  "openAiWsReady c \<Longrightarrow> readyState (openAiWs c) = OPEN \<Longrightarrow> queuedFirstMessage c = Some q \<Longrightarrow>
   sendFirstMessage c =
     Ok (c\<lparr>openAiWs := (openAiWs c)\<lparr>sent := sent (openAiWs c) @ [q, ResponseCreate]\<rparr>,
           queuedFirstMessage := None\<rparr>)"
  by (simp add: sendFirstMessage_def ws_send_def)

lemma step_start_fts:
  assumes "JSON_parse rt msg = Some data"
    and "js_get data ''event'' = Inr (JStr ''start'')"
    and "js_get data ''start'' = Inr start"
    and "js_get start ''streamSid'' = Inr sid"
    and "t = js_or (js_opt_get (js_opt_get start ''customParameters'') ''firstMessage'')
               (JStr ''Hello, how can I assist you?'')"
  shows "first_turn_state wc = (False, q, rs, n) \<Longrightarrow>
           \<exists>wc'. step rt wc (TwilioMessage msg) = Ok wc' \<and>
             first_turn_state wc' = (False, Some (ConversationItemCreate (MessageItem t)), rs, n)"
    and "first_turn_state wc = (True, q, OPEN, n) \<Longrightarrow>
           \<exists>wc'. step rt wc (TwilioMessage msg) = Ok wc' \<and>
             first_turn_state wc' = (True, None, OPEN, n @ [ConversationItemCreate (MessageItem t)])"
  using assms
  by (cases wc; simp add: step_def on_twilio_message_def twilio_body_def twilio_start_def
        try_catch_simps first_turn_state_def Let_def sendFirstMessage_open first_turns_def
        is_first_turn_def)+

lemma step_open_fts:
  "first_turn_state wc = (False, None, rs, n) \<Longrightarrow>
     \<exists>wc'. step rt wc OpenAiOpen = Ok wc' \<and> first_turn_state wc' = (True, None, OPEN, n)"
  "first_turn_state wc = (False, Some (ConversationItemCreate (MessageItem t)), rs, n) \<Longrightarrow>
     \<exists>wc'. step rt wc OpenAiOpen = Ok wc' \<and>
       first_turn_state wc' = (True, None, OPEN, n @ [ConversationItemCreate (MessageItem t)])"
  by (cases wc; simp add: step_def on_openai_open_def sendSessionUpdate_def ws_send_def
        and_then_simps sendFirstMessage_def first_turn_state_def first_turns_def
        is_first_turn_def)+

lemma connect_fts:
  "first_turn_state (media_stream_connect w header now) = (False, None, CONNECTING, [])"
  by (simp add: media_stream_connect_def first_turn_state_def first_turns_def Let_def
      split: option.splits prod.splits)

lemma run_append_Ok: "run rt wc xs = Ok wc1 \<Longrightarrow> run rt wc (xs @ ys) = run rt wc1 ys"
  by (simp add: run_append and_then_simps)

text \<open>
  Claim C2. A call starts as the route creates it. Whatever other events (caller frames
  that are not start frames, messages of the AI service) come before, between and after
  them, one start frame and one opening of the AI socket deliver the first turn exactly
  once, in both orders. When the start frame comes first, the turn waits in the queue
  with nothing sent, and the opening releases it and empties the queue; when the socket
  opens first, the start frame sends it at once. In both orders the first turns sent by
  the end are that one event.
\<close>

theorem C2_first_turn_exactly_once:
  assumes start: "JSON_parse rt msg = Some data"
      "js_get data ''event'' = Inr (JStr ''start'')"
      "js_get data ''start'' = Inr start"
      "js_get start ''streamSid'' = Inr sid"
    and t: "t = js_or (js_opt_get (js_opt_get start ''customParameters'') ''firstMessage'')
               (JStr ''Hello, how can I assist you?'')"
    and others: "list_all (other_event rt) xs" "list_all (other_event rt) ys"
      "list_all (other_event rt) zs"
  shows "(\<exists>wc1 wc2.
            run rt (media_stream_connect w header now) (xs @ TwilioMessage msg # ys) = Ok wc1 \<and>
            queuedFirstMessage (snd wc1) = Some (ConversationItemCreate (MessageItem t)) \<and>
            first_turns (sent (openAiWs (snd wc1))) = [] \<and>
            run rt (media_stream_connect w header now)
              (xs @ TwilioMessage msg # ys @ OpenAiOpen # zs) = Ok wc2 \<and>
            queuedFirstMessage (snd wc2) = None \<and>
            first_turns (sent (openAiWs (snd wc2))) = [ConversationItemCreate (MessageItem t)]) \<and>
         (\<exists>wc1 wc2.
            run rt (media_stream_connect w header now) (xs @ OpenAiOpen # ys) = Ok wc1 \<and>
            first_turns (sent (openAiWs (snd wc1))) = [] \<and>
            run rt (media_stream_connect w header now)
              (xs @ OpenAiOpen # ys @ TwilioMessage msg # zs) = Ok wc2 \<and>
            queuedFirstMessage (snd wc2) = None \<and>
            first_turns (sent (openAiWs (snd wc2))) = [ConversationItemCreate (MessageItem t)])"
proof -
  let ?wc = "media_stream_connect w header now"
  let ?turn = "ConversationItemCreate (MessageItem t)"
  note st = step_start_fts[OF start t]
  obtain w0 where w0: "run rt ?wc xs = Ok w0"
      "first_turn_state w0 = (False, None, CONNECTING, [])"
    using run_others_fts[OF others(1), of ?wc] connect_fts[of w header now] by auto
  \<comment> \<open>start first\<close>
  obtain a1 where a1: "step rt w0 (TwilioMessage msg) = Ok a1"
      "first_turn_state a1 = (False, Some ?turn, CONNECTING, [])"
    using st(1)[OF w0(2)] by auto
  obtain a2 where a2: "run rt a1 ys = Ok a2"
      "first_turn_state a2 = (False, Some ?turn, CONNECTING, [])"
    using run_others_fts[OF others(2), of a1] a1(2) by auto
  obtain a3 where a3: "step rt a2 OpenAiOpen = Ok a3"
      "first_turn_state a3 = (True, None, OPEN, [?turn])"
    using step_open_fts(2)[OF a2(2), of rt] by auto
  obtain a4 where a4: "run rt a3 zs = Ok a4"
      "first_turn_state a4 = (True, None, OPEN, [?turn])"
    using run_others_fts[OF others(3), of a3] a3(2) by auto
  have A1: "run rt ?wc (xs @ TwilioMessage msg # ys) = Ok a2"
    by (simp add: run_append_Ok[OF w0(1)] a1(1) and_then_simps a2(1))
  have A2: "run rt ?wc (xs @ TwilioMessage msg # ys @ OpenAiOpen # zs) = Ok a4"
    by (simp add: run_append_Ok[OF w0(1)] a1(1) and_then_simps run_append_Ok[OF a2(1)]
        a3(1) a4(1))
  \<comment> \<open>open first\<close>
  obtain b1 where b1: "step rt w0 OpenAiOpen = Ok b1"
      "first_turn_state b1 = (True, None, OPEN, [])"
    using step_open_fts(1)[OF w0(2), of rt] by auto
  obtain b2 where b2: "run rt b1 ys = Ok b2" "first_turn_state b2 = (True, None, OPEN, [])"
    using run_others_fts[OF others(2), of b1] b1(2) by auto
  obtain b3 where b3: "step rt b2 (TwilioMessage msg) = Ok b3"
      "first_turn_state b3 = (True, None, OPEN, [?turn])"
    using st(2)[OF b2(2)] by auto
  obtain b4 where b4: "run rt b3 zs = Ok b4"
      "first_turn_state b4 = (True, None, OPEN, [?turn])"
    using run_others_fts[OF others(3), of b3] b3(2) by auto
  have B1: "run rt ?wc (xs @ OpenAiOpen # ys) = Ok b2"
    by (simp add: run_append_Ok[OF w0(1)] b1(1) and_then_simps b2(1))
  have B2: "run rt ?wc (xs @ OpenAiOpen # ys @ TwilioMessage msg # zs) = Ok b4"
    by (simp add: run_append_Ok[OF w0(1)] b1(1) and_then_simps run_append_Ok[OF b2(1)]
        b3(1) b4(1))
  from A1 A2 B1 B2 a2(2) a4(2) b2(2) b4(2) show ?thesis
    by (simp add: first_turn_state_def)
qed

theorem C2_first_turn_exactly_once_witness:
  "(\<exists>wc1 wc2.
      run (table_runtime [(''start'', start_event), (''media'', media_event)])
        (media_stream_connect (server_start populated_db) None 0)
        ([TwilioMessage ''media''] @ TwilioMessage ''start'' # [TwilioMessage ''noise'']) = Ok wc1 \<and>
      queuedFirstMessage (snd wc1) =
        Some (ConversationItemCreate (MessageItem (JStr ''Welcome back John Doe.''))) \<and>
      first_turns (sent (openAiWs (snd wc1))) = [] \<and>
      run (table_runtime [(''start'', start_event), (''media'', media_event)])
        (media_stream_connect (server_start populated_db) None 0)
        ([TwilioMessage ''media''] @ TwilioMessage ''start'' # [TwilioMessage ''noise''] @
         OpenAiOpen # [TwilioMessage ''media'', OpenAiMessage ''noise'']) = Ok wc2 \<and>
      queuedFirstMessage (snd wc2) = None \<and>
      first_turns (sent (openAiWs (snd wc2))) =
        [ConversationItemCreate (MessageItem (JStr ''Welcome back John Doe.''))]) \<and>
   (\<exists>wc1 wc2.
      run (table_runtime [(''start'', start_event), (''media'', media_event)])
        (media_stream_connect (server_start populated_db) None 0)
        ([TwilioMessage ''media''] @ OpenAiOpen # [TwilioMessage ''noise'']) = Ok wc1 \<and>
      first_turns (sent (openAiWs (snd wc1))) = [] \<and>
      run (table_runtime [(''start'', start_event), (''media'', media_event)])
        (media_stream_connect (server_start populated_db) None 0)
        ([TwilioMessage ''media''] @ OpenAiOpen # [TwilioMessage ''noise''] @
         TwilioMessage ''start'' # [TwilioMessage ''media'', OpenAiMessage ''noise'']) = Ok wc2 \<and>
      queuedFirstMessage (snd wc2) = None \<and>
      first_turns (sent (openAiWs (snd wc2))) =
        [ConversationItemCreate (MessageItem (JStr ''Welcome back John Doe.''))])"
proof -
  have others: "list_all (other_event (table_runtime [(''start'', start_event), (''media'', media_event)]))
                  [TwilioMessage ''media'']"
    "list_all (other_event (table_runtime [(''start'', start_event), (''media'', media_event)]))
                  [TwilioMessage ''noise'']"
    "list_all (other_event (table_runtime [(''start'', start_event), (''media'', media_event)]))
                  [TwilioMessage ''media'', OpenAiMessage ''noise'']"
    by (simp_all add: other_event_def is_start_frame_def table_runtime_def media_event_def)
  have start: "JSON_parse (table_runtime [(''start'', start_event), (''media'', media_event)])
                 ''start'' = Some start_event"
    "js_get start_event ''event'' = Inr (JStr ''start'')"
    "js_get start_event ''start'' =
       Inr (JObj [(''streamSid'', JStr ''MZ1''), (''callSid'', JStr ''CA1''),
                  (''customParameters'',
                   JObj [(''firstMessage'', JStr ''Welcome back John Doe.''),
                         (''callerNumber'', JStr ''+1234567890'')])])"
    "js_get (JObj [(''streamSid'', JStr ''MZ1''), (''callSid'', JStr ''CA1''),
                  (''customParameters'',
                   JObj [(''firstMessage'', JStr ''Welcome back John Doe.''),
                         (''callerNumber'', JStr ''+1234567890'')])]) ''streamSid'' = Inr (JStr ''MZ1'')"
    by (simp_all add: table_runtime_def start_event_def)
  have t: "JStr ''Welcome back John Doe.'' =
      js_or (js_opt_get (js_opt_get (JObj [(''streamSid'', JStr ''MZ1''), (''callSid'', JStr ''CA1''),
                  (''customParameters'',
                   JObj [(''firstMessage'', JStr ''Welcome back John Doe.''),
                         (''callerNumber'', JStr ''+1234567890'')])]) ''customParameters'') ''firstMessage'')
               (JStr ''Hello, how can I assist you?'')"
    by (simp add: js_or_def js_opt_get_def nullish_def)
  show ?thesis
    by (rule C2_first_turn_exactly_once[OF start t others])
qed

section \<open>The stream's start frame\<close>

lemma sendFirstMessage_ready:
  "sendFirstMessage c = Ok c' \<or> sendFirstMessage c = Raise e c' \<Longrightarrow>
   openAiWsReady c' = openAiWsReady c"
  by (auto simp: sendFirstMessage_def split: option.splits sum.splits if_splits)

lemma twilio_body_conn_ok: "conn_ok wc \<Longrightarrow> conn_ok (state_of (twilio_body rt wc msg))"
proof (cases "is_start_frame rt msg")
  case False
  assume "conn_ok wc"
  then show ?thesis
    using twilio_other_body_fts[OF False, of wc] by (simp add: conn_ok_def first_turn_state_def)
next
  case True
  assume ok: "conn_ok wc"
  from True obtain data where d: "JSON_parse rt msg = Some data"
      "js_get data ''event'' = Inr (JStr ''start'')"
    by (auto simp: is_start_frame_def split: option.splits)
  have "conn_ok (state_of (twilio_start data wc))"
    using ok twilio_start_sockets[of data wc]
    by (cases wc)
       (auto simp: twilio_start_def conn_ok_def state_of_def socket_states_def Let_def
             split: sum.splits res.splits if_splits
             dest!: sendFirstMessage_ready[OF disjI1] sendFirstMessage_ready[OF disjI2])
  with d show ?thesis by (simp add: twilio_body_def)
qed

lemma step_conn_ok: "conn_ok wc \<Longrightarrow> conn_ok (state_of (step rt wc ev))"
proof (cases ev)
  case (TwilioMessage msg)
  assume "conn_ok wc"
  then show ?thesis
    using twilio_body_conn_ok[of wc rt msg] TwilioMessage
    by (cases "twilio_body rt wc msg")
       (simp_all add: step_def on_twilio_message_def try_catch_simps state_of_simps conn_ok_def)
next
  case OpenAiOpen
  have "readyState (openAiWs (state_of (on_openai_open (c\<lparr>openAiWs := (openAiWs c)\<lparr>readyState := OPEN\<rparr>\<rparr>)))) = OPEN" for c
    by (auto simp: on_openai_open_def sendSessionUpdate_def ws_send_def and_then_simps
          sendFirstMessage_def state_of_simps split: option.splits)
  from this[of "snd wc"] show ?thesis using OpenAiOpen
    by (cases "on_openai_open ((snd wc)\<lparr>openAiWs := (openAiWs (snd wc))\<lparr>readyState := OPEN\<rparr>\<rparr>)")
       (simp_all add: step_def conn_ok_def state_of_simps)
next
  case (OpenAiMessage data)
  assume "conn_ok wc"
  then show ?thesis
    using on_openai_message_fts[of rt wc data] OpenAiMessage
    by (auto simp: step_def conn_ok_def first_turn_state_def state_of_simps)
qed

lemma run_conn_ok: "conn_ok wc \<Longrightarrow> run rt wc evs = Ok wc' \<Longrightarrow> conn_ok wc'"
proof (induction evs arbitrary: wc)
  case Nil
  then show ?case by simp
next
  case (Cons ev evs)
  show ?case
  proof (cases "step rt wc ev")
    case (Ok wc1)
    with Cons.prems step_conn_ok[of wc rt ev] have "conn_ok wc1" "run rt wc1 evs = Ok wc'"
      by (simp_all add: state_of_simps and_then_simps)
    then show ?thesis by (rule Cons.IH)
  next
    case (Raise e s)
    with Cons.prems show ?thesis by (simp add: and_then_simps)
  qed
qed

lemma connect_conn_ok: "conn_ok (media_stream_connect w header now)"
  by (simp add: media_stream_connect_def conn_ok_def Let_def split: option.splits prod.splits)

lemma js_opt_get_absent:
  "nullish params \<or> js_get params k = Inr JUndefined \<Longrightarrow> js_opt_get params k = JUndefined"
  by (auto simp: js_opt_get_def)

text \<open>
  Claim C10. In any state a call reaches, a start frame (one that carries its
  \<open>start\<close> object) is handled without failure: the handler returns normally and logs
  nothing. When the custom parameters are missing altogether or lack the caller number,
  the session's caller number becomes the string \<open>Unknown\<close>; when they are missing or
  lack the first message, the first message is \<open>Hello, how can I assist you?\<close>, and
  the first turn, queued while the AI socket is not ready and sent at once when it is,
  carries that text.
\<close>

theorem C10_start_event_defaults:
  assumes "run rt (media_stream_connect w0 header now) evs = Ok (w, c)"
    and "JSON_parse rt msg = Some data"
    and "js_get data ''event'' = Inr (JStr ''start'')"
    and "js_get data ''start'' = Inr start"
    and "js_get start ''streamSid'' = Inr sid"
    and "params = js_opt_get start ''customParameters''"
  shows "\<exists>w' c'.
           on_twilio_message rt (w, c) msg = Ok (w', c') \<and>
           console w' = console w \<and>
           (nullish params \<or> js_get params ''callerNumber'' = Inr JUndefined \<longrightarrow>
              callerNumber (heap w' (session c)) = JStr ''Unknown'') \<and>
           (nullish params \<or> js_get params ''firstMessage'' = Inr JUndefined \<longrightarrow>
              firstMessage c' = JStr ''Hello, how can I assist you?'' \<and>
              (if openAiWsReady c
               then queuedFirstMessage c' = None \<and>
                    sent (openAiWs c') =
                      sent (openAiWs c) @
                      (if readyState (openAiWs c) = OPEN
                       then [ConversationItemCreate
                               (MessageItem (JStr ''Hello, how can I assist you?'')),
                             ResponseCreate]
                       else [])
               else queuedFirstMessage c' =
                      Some (ConversationItemCreate
                              (MessageItem (JStr ''Hello, how can I assist you?''))) \<and>
                    sent (openAiWs c') = sent (openAiWs c)))"
proof -
  let ?number = "js_or (js_opt_get params ''callerNumber'') (JStr ''Unknown'')"
  let ?text = "js_or (js_opt_get params ''firstMessage'') (JStr ''Hello, how can I assist you?'')"
  let ?w1 = "w\<lparr>heap := (heap w)(session c := (heap w (session c))\<lparr>callerNumber := ?number\<rparr>)\<rparr>"
  let ?c1 = "c\<lparr>streamSid := sid, firstMessage := ?text,
               queuedFirstMessage := Some (ConversationItemCreate (MessageItem ?text))\<rparr>"
  have ok: "conn_ok (w, c)"
    using run_conn_ok[OF connect_conn_ok assms(1)] .
  have absent: "\<And>k. nullish params \<or> js_get params k = Inr JUndefined \<Longrightarrow>
      js_or (js_opt_get params k) d = d" for d
    by (simp add: js_opt_get_absent js_or_def)
  show ?thesis
  proof (cases "openAiWsReady c")
    case False
    then have "on_twilio_message rt (w, c) msg = Ok (?w1, ?c1)"
      using assms(2-6)
      by (simp add: on_twilio_message_def twilio_body_def twilio_start_def try_catch_simps Let_def)
    then show ?thesis using False absent by auto
  next
    case True
    with ok have nc: "readyState (openAiWs c) \<noteq> CONNECTING" by (simp add: conn_ok_def)
    let ?c2 = "?c1\<lparr>openAiWs := (openAiWs c)\<lparr>sent := sent (openAiWs c) @
                 (if readyState (openAiWs c) = OPEN
                  then [ConversationItemCreate (MessageItem ?text), ResponseCreate] else [])\<rparr>,
               queuedFirstMessage := None\<rparr>"
    have "sendFirstMessage ?c1 = Ok ?c2"
      using True nc
      by (cases "readyState (openAiWs c)") (simp_all add: sendFirstMessage_def ws_send_def)
    then have "on_twilio_message rt (w, c) msg = Ok (?w1, ?c2)"
      using assms(2-6) True
      by (simp add: on_twilio_message_def twilio_body_def twilio_start_def try_catch_simps Let_def)
    then show ?thesis using True absent by auto
  qed
qed

theorem C10_start_event_defaults_witness:
  "\<exists>w' c'.
     on_twilio_message (table_runtime [(''start'', bare_start_event)])
       (fst (first_call (server_start populated_db)), snd (first_call (server_start populated_db)))
       ''start'' = Ok (w', c') \<and>
     console w' = console (fst (first_call (server_start populated_db))) \<and>
     callerNumber (heap w' (session (snd (first_call (server_start populated_db))))) =
       JStr ''Unknown'' \<and>
     firstMessage c' = JStr ''Hello, how can I assist you?'' \<and>
     queuedFirstMessage c' =
       Some (ConversationItemCreate (MessageItem (JStr ''Hello, how can I assist you?''))) \<and>
     sent (openAiWs c') = []"
  using C10_start_event_defaults
    [where rt = "table_runtime [(''start'', bare_start_event)]"
       and ?w0.0 = "server_start populated_db" and header = None and now = 0 and evs = "[]"
       and w = "fst (first_call (server_start populated_db))"
       and c = "snd (first_call (server_start populated_db))"
       and msg = "''start''" and data = bare_start_event
       and start = "JObj [(''streamSid'', JStr ''MZ1''), (''callSid'', JStr ''CA1'')]"
       and sid = "JStr ''MZ1''" and params = JUndefined]
  by (simp add: table_runtime_def bare_start_event_def first_call_def js_opt_get_def nullish_def
      media_stream_connect_def server_start_def Let_def)

section \<open>The schedule-appointment tool\<close>

lemma function_call_reply:
  assumes "js_get response ''name'' = Inr functionName"
    and "parse_arguments rt response = Inr args"
    and "tool_switch rt w functionName args = Inr (Some r, w1)"
    and "readyState (openAiWs c) = OPEN"
  shows "openai_function_call rt response (JStr ''response.function_call_arguments.done'') (w, c)
           = Ok (w1, tool_reply c (message r))"
  using assms by (simp add: openai_function_call_def ws_send_def tool_reply_def)

lemma function_call_event:
  assumes "JSON_parse rt data = Some response"
    and "js_get response ''type'' = Inr (JStr ''response.function_call_arguments.done'')"
    and "openai_function_call rt response (JStr ''response.function_call_arguments.done'') (w, c)
           = Ok wc'"
  shows "on_openai_message rt (w, c) data = Ok wc'"
  using assms
  by (simp add: on_openai_message_def openai_body_def openai_audio_delta_def and_then_simps
      openai_response_done_def openai_transcription_def try_catch_simps)

text \<open>
  Claim C3, as amended. The profile a \<open>schedule_appointment\<close> tool call uses is the one
  the process holds at that moment, the single process-wide \<open>globalUser\<close> that the
  latest successful sign-in on any call has set; nothing is bound to the session. For a
  call whose arguments carry doctor, date and reason (values that convert to text, as
  every string does): when the process holds a profile and the store accepts the insert,
  the tool appends exactly one appointment row (that profile's id, the three arguments,
  status \<open>scheduled\<close>) and returns the confirmation
  \<open>Appointment scheduled with ... on ... for ... .\<close>; when the process holds a profile
  and the store rejects the insert (the table is missing), it adds no row, writes the
  one console entry \<open>Error scheduling appointment:\<close> with the error, and returns
  \<open>Unable to schedule appointment at this time.\<close>; when the process holds no profile,
  it writes nothing and returns \<open>Patient not found in our records.\<close> On an open AI
  socket the handler as a whole does just that and sends the returned message back as
  the function's output, followed by the \<open>response.create\<close> built from it.
\<close>

theorem C3_schedule_appointment_tool:
  assumes "JSON_parse rt data = Some response"
    and "js_get response ''type'' = Inr (JStr ''response.function_call_arguments.done'')"
    and "js_get response ''name'' = Inr (JStr ''schedule_appointment'')"
    and "js_get response ''arguments'' = Inr (JStr text)"
    and "JSON_parse rt text = Some args"
    and "js_get args ''doctor'' = Inr doctor"
    and "js_get args ''date'' = Inr date"
    and "js_get args ''reason'' = Inr reason"
    and "to_string doctor = Inr d"
    and "to_string date = Inr dt"
    and "to_string reason = Inr r"
  shows "(globalUser w = Some u \<and> appointments (db w) = Some rows \<longrightarrow>
            tool_switch rt w (JStr ''schedule_appointment'') args =
              Inr (Some \<lparr>message = ''Appointment scheduled with '' @ d @ '' on '' @ dt @
                                    '' for '' @ r @ ''.''\<rparr>,
                   w\<lparr>db := (db w)\<lparr>appointments :=
                       Some (rows @ [\<lparr>a_user_id = u_id u, a_doctor = doctor, a_date = date,
                                      a_reason = reason, a_status = ''scheduled''\<rparr>])\<rparr>\<rparr>) \<and>
            (readyState (openAiWs c) = OPEN \<longrightarrow>
               on_openai_message rt (w, c) data =
                 Ok (w\<lparr>db := (db w)\<lparr>appointments :=
                         Some (rows @ [\<lparr>a_user_id = u_id u, a_doctor = doctor, a_date = date,
                                        a_reason = reason, a_status = ''scheduled''\<rparr>])\<rparr>\<rparr>,
                     tool_reply c (''Appointment scheduled with '' @ d @ '' on '' @ dt @
                                   '' for '' @ r @ ''.'')))) \<and>
         (globalUser w = Some u \<and> appointments (db w) = None \<longrightarrow>
            tool_switch rt w (JStr ''schedule_appointment'') args =
              Inr (Some \<lparr>message = ''Unable to schedule appointment at this time.''\<rparr>,
                   w
                         \<lparr>console := console w
                            @ [LogError ''Error scheduling appointment:'' SqlError]\<rparr>) \<and>
            (readyState (openAiWs c) = OPEN \<longrightarrow>
               on_openai_message rt (w, c) data =
                 Ok (w\<lparr>console := console w @ [LogError ''Error scheduling appointment:'' SqlError]\<rparr>,
                     tool_reply c ''Unable to schedule appointment at this time.''))) \<and>
         (globalUser w = None \<longrightarrow>
            tool_switch rt w (JStr ''schedule_appointment'') args =
              Inr (Some \<lparr>message = ''Patient not found in our records.''\<rparr>, w) \<and>
            (readyState (openAiWs c) = OPEN \<longrightarrow>
               on_openai_message rt (w, c) data =
                 Ok (w, tool_reply c ''Patient not found in our records.'')))"
proof -
  have pa: "parse_arguments rt response = Inr args"
    using assms(4,5) by (simp add: parse_arguments_def)
  have sw: "tool_switch rt w (JStr ''schedule_appointment'') args =
      (case scheduleAppointment w doctor date reason of (r, w1) \<Rightarrow> Inr (Some r, w1))"
    using assms(6-8) by (simp add: tool_switch_def)
  have ev: "\<And>res w1. scheduleAppointment w doctor date reason = (res, w1) \<Longrightarrow>
      tool_switch rt w (JStr ''schedule_appointment'') args = Inr (Some res, w1) \<and>
      (readyState (openAiWs c) = OPEN \<longrightarrow>
         on_openai_message rt (w, c) data = Ok (w1, tool_reply c (message res)))"
    using function_call_event[OF assms(1,2)] function_call_reply[OF assms(3) pa]
    by (simp add: sw)
  have 1: "globalUser w = Some u \<Longrightarrow> appointments (db w) = Some rows \<Longrightarrow>
      scheduleAppointment w doctor date reason =
        (\<lparr>message = ''Appointment scheduled with '' @ d @ '' on '' @ dt @ '' for '' @ r @ ''.''\<rparr>,
         w\<lparr>db := (db w)\<lparr>appointments :=
                      Some (rows @ [\<lparr>a_user_id = u_id u, a_doctor = doctor, a_date = date,
                                     a_reason = reason, a_status = ''scheduled''\<rparr>])\<rparr>\<rparr>)"
    using assms(9-11) by (simp add: scheduleAppointment_def insert_row_def)
  have 2: "globalUser w = Some u \<Longrightarrow> appointments (db w) = None \<Longrightarrow>
      scheduleAppointment w doctor date reason =
        (\<lparr>message = ''Unable to schedule appointment at this time.''\<rparr>,
         w\<lparr>console := console w @ [LogError ''Error scheduling appointment:'' SqlError]\<rparr>)"
    by (simp add: scheduleAppointment_def insert_row_def console_error_def)
  have 3: "globalUser w = None \<Longrightarrow>
      scheduleAppointment w doctor date reason =
        (\<lparr>message = ''Patient not found in our records.''\<rparr>, w)"
    by (simp add: scheduleAppointment_def)
  show ?thesis
    using ev[OF 1] ev[OF 2] ev[OF 3] by simp
qed

lemma opened_first_call:
  "globalUser (fst (opened (first_call w))) = globalUser w"
  "db (fst (opened (first_call w))) = db w"
  "console (fst (opened (first_call w))) = console w"
  "openAiWs (snd (opened (first_call w))) = \<lparr>readyState = OPEN, sent = [SessionUpdate]\<rparr>"
  by (simp_all add: opened_def first_call_def media_stream_connect_def step_def on_openai_open_def
      sendSessionUpdate_def sendFirstMessage_def ws_send_def and_then_simps state_of_simps Let_def
      split: option.splits)

lemma signed_in_facts:
  "users d = Some [sampleUser] \<Longrightarrow> globalUser (signed_in d) = Some sampleUser"
  "users d = Some [sampleUser] \<Longrightarrow> appointments (db (signed_in d)) = appointments d"
  by (simp_all add: signed_in_def process_password_def verifyUser_def server_start_def
      sampleUser_def getLastCallInfo_def console_error_def Let_def split: option.splits)

lemma schedule_frame:
  "JSON_parse tools_runtime ''schedule'' = Some schedule_event"
  "js_get schedule_event ''type'' = Inr (JStr ''response.function_call_arguments.done'')"
  "js_get schedule_event ''name'' = Inr (JStr ''schedule_appointment'')"
  "js_get schedule_event ''arguments'' = Inr (JStr ''schedule arguments'')"
  "JSON_parse tools_runtime ''schedule arguments'' = Some schedule_arguments"
  "js_get schedule_arguments ''doctor'' = Inr (JStr ''Dr. Smith'')"
  "js_get schedule_arguments ''date'' = Inr (JStr ''2024-04-01'')"
  "js_get schedule_arguments ''reason'' = Inr (JStr ''follow-up'')"
  by (simp_all add: tools_runtime_def table_runtime_def schedule_event_def schedule_arguments_def)

lemma walk_in_call_facts:
  "globalUser (fst (walk_in_call w)) = globalUser w"
  "db (fst (walk_in_call w)) = db w"
  "openAiWs (snd (walk_in_call w)) = \<lparr>readyState = OPEN, sent = [SessionUpdate]\<rparr>"
  by (simp_all add: walk_in_call_def opened_def media_stream_connect_def step_def
      on_openai_open_def sendSessionUpdate_def sendFirstMessage_def ws_send_def and_then_simps
      state_of_simps Let_def split: option.splits)

theorem C3_schedule_appointment_tool_witness:
  "tool_switch tools_runtime (fst signed_in_call) (JStr ''schedule_appointment'')
     schedule_arguments =
     Inr (Some \<lparr>message = ''Appointment scheduled with Dr. Smith on 2024-04-01 for follow-up.''\<rparr>,
          (fst signed_in_call)
            \<lparr>db := (db (fst signed_in_call))
               \<lparr>appointments :=
                  Some [\<lparr>a_user_id = 1, a_doctor = JStr ''Dr. Smith'',
                         a_date = JStr ''2024-04-01'', a_reason = JStr ''follow-up'',
                         a_status = ''scheduled''\<rparr>]\<rparr>\<rparr>) \<and>
   on_openai_message tools_runtime signed_in_call ''schedule'' =
     Ok ((fst signed_in_call)
           \<lparr>db := (db (fst signed_in_call))
              \<lparr>appointments :=
                 Some [\<lparr>a_user_id = 1, a_doctor = JStr ''Dr. Smith'', a_date = JStr ''2024-04-01'',
                        a_reason = JStr ''follow-up'', a_status = ''scheduled''\<rparr>]\<rparr>\<rparr>,
         tool_reply (snd signed_in_call)
           ''Appointment scheduled with Dr. Smith on 2024-04-01 for follow-up.'') \<and>
   on_openai_message tools_runtime no_table_call ''schedule'' =
     Ok ((fst no_table_call)
           \<lparr>console := console (fst no_table_call)
              @ [LogError ''Error scheduling appointment:'' SqlError]\<rparr>,
         tool_reply (snd no_table_call) ''Unable to schedule appointment at this time.'') \<and>
   on_openai_message tools_runtime anonymous_call ''schedule'' =
     Ok (fst anonymous_call,
         tool_reply (snd anonymous_call) ''Patient not found in our records.'')"
  using C3_schedule_appointment_tool
      [OF schedule_frame, where c = "snd signed_in_call" and w = "fst signed_in_call"
         and u = sampleUser and rows = "[]" and d = "''Dr. Smith''" and dt = "''2024-04-01''"
         and r = "''follow-up''"]
    C3_schedule_appointment_tool
      [OF schedule_frame, where c = "snd no_table_call" and w = "fst no_table_call"
         and u = sampleUser and d = "''Dr. Smith''" and dt = "''2024-04-01''"
         and r = "''follow-up''"]
    C3_schedule_appointment_tool
      [OF schedule_frame, where c = "snd anonymous_call" and w = "fst anonymous_call"
         and d = "''Dr. Smith''" and dt = "''2024-04-01''" and r = "''follow-up''"]
  by (simp add: signed_in_call_def no_table_call_def anonymous_call_def opened_first_call
      signed_in_facts populated_db_def sampleUser_def server_start_def)

text \<open>
  Claim C3 as stated ties the outcome to a profile bound to the session, and fails: a
  caller stream on which nobody has entered a password carries the same connection state
  and the same fresh session object whoever has signed in elsewhere. On a server where
  nobody has signed in, its tool call is answered \<open>Patient not found in our records.\<close>;
  once the sample patient has signed in on another call, the same tool call on the same
  stream inserts an appointment under that patient's id and returns a confirmation.
\<close>

theorem C3_unauthenticated_stream_books_counterexample:
  "snd (walk_in_call (signed_in populated_db)) = snd (walk_in_call (server_start populated_db)) \<and>
   heap (fst (walk_in_call (signed_in populated_db)))
        (session (snd (walk_in_call (signed_in populated_db)))) =
     \<lparr>transcript = [], s_streamSid = JNull, callerNumber = JUndefined\<rparr> \<and>
   on_openai_message tools_runtime (walk_in_call (server_start populated_db)) ''schedule'' =
     Ok (fst (walk_in_call (server_start populated_db)),
         tool_reply (snd (walk_in_call (server_start populated_db)))
           ''Patient not found in our records.'') \<and>
   on_openai_message tools_runtime (walk_in_call (signed_in populated_db)) ''schedule'' =
     Ok ((fst (walk_in_call (signed_in populated_db)))
           \<lparr>db := (db (fst (walk_in_call (signed_in populated_db))))
              \<lparr>appointments :=
                 Some [\<lparr>a_user_id = u_id sampleUser, a_doctor = JStr ''Dr. Smith'',
                        a_date = JStr ''2024-04-01'', a_reason = JStr ''follow-up'',
                        a_status = ''scheduled''\<rparr>]\<rparr>\<rparr>,
         tool_reply (snd (walk_in_call (signed_in populated_db)))
           ''Appointment scheduled with Dr. Smith on 2024-04-01 for follow-up.'')"
proof -
  let ?a = "walk_in_call (server_start populated_db)"
  let ?j = "walk_in_call (signed_in populated_db)"
  have conn: "snd ?j = snd ?a"
    and obj: "heap (fst ?j) (session (snd ?j)) =
      \<lparr>transcript = [], s_streamSid = JNull, callerNumber = JUndefined\<rparr>"
    by (simp_all add: walk_in_call_def opened_def step_def on_openai_open_def
        sendSessionUpdate_def sendFirstMessage_def ws_send_def and_then_simps state_of_simps
        media_stream_connect_def signed_in_def process_password_def verifyUser_def
        getLastCallInfo_def last_call_def server_start_def populated_db_def sampleUser_def
        Let_def)
  have g: "globalUser (fst ?a) = None" "globalUser (fst ?j) = Some sampleUser"
    "appointments (db (fst ?j)) = Some []"
    "readyState (openAiWs (snd ?a)) = OPEN" "readyState (openAiWs (snd ?j)) = OPEN"
    by (simp_all add: walk_in_call_facts signed_in_facts populated_db_def server_start_def)
  have pa: "parse_arguments tools_runtime schedule_event = Inr schedule_arguments"
    by (simp add: parse_arguments_def schedule_frame)
  have "tool_switch tools_runtime (fst ?a) (JStr ''schedule_appointment'') schedule_arguments =
        Inr (Some \<lparr>message = ''Patient not found in our records.''\<rparr>, fst ?a)"
    by (simp add: tool_switch_def schedule_frame scheduleAppointment_def g)
  from function_call_reply[OF schedule_frame(3) pa this g(4)]
  have A: "on_openai_message tools_runtime (fst ?a, snd ?a) ''schedule'' =
     Ok (fst ?a, tool_reply (snd ?a) ''Patient not found in our records.'')"
    by (intro function_call_event[OF schedule_frame(1,2)]) simp
  have "tool_switch tools_runtime (fst ?j) (JStr ''schedule_appointment'') schedule_arguments =
        Inr (Some \<lparr>message =
                     ''Appointment scheduled with Dr. Smith on 2024-04-01 for follow-up.''\<rparr>,
             (fst ?j)\<lparr>db := (db (fst ?j))
                \<lparr>appointments :=
                   Some [\<lparr>a_user_id = u_id sampleUser, a_doctor = JStr ''Dr. Smith'',
                          a_date = JStr ''2024-04-01'', a_reason = JStr ''follow-up'',
                          a_status = ''scheduled''\<rparr>]\<rparr>\<rparr>)"
    by (simp add: tool_switch_def schedule_frame scheduleAppointment_def g insert_row_def)
  from function_call_reply[OF schedule_frame(3) pa this g(5)]
  have J: "on_openai_message tools_runtime (fst ?j, snd ?j) ''schedule'' =
     Ok ((fst ?j)\<lparr>db := (db (fst ?j))
                \<lparr>appointments :=
                   Some [\<lparr>a_user_id = u_id sampleUser, a_doctor = JStr ''Dr. Smith'',
                          a_date = JStr ''2024-04-01'', a_reason = JStr ''follow-up'',
                          a_status = ''scheduled''\<rparr>]\<rparr>\<rparr>,
         tool_reply (snd ?j) ''Appointment scheduled with Dr. Smith on 2024-04-01 for follow-up.'')"
    by (intro function_call_event[OF schedule_frame(1,2)]) simp
  from A have A': "on_openai_message tools_runtime ?a ''schedule'' =
     Ok (fst ?a, tool_reply (snd ?a) ''Patient not found in our records.'')"
    by simp
  from J have J': "on_openai_message tools_runtime ?j ''schedule'' =
     Ok ((fst ?j)\<lparr>db := (db (fst ?j))
                \<lparr>appointments :=
                   Some [\<lparr>a_user_id = u_id sampleUser, a_doctor = JStr ''Dr. Smith'',
                          a_date = JStr ''2024-04-01'', a_reason = JStr ''follow-up'',
                          a_status = ''scheduled''\<rparr>]\<rparr>\<rparr>,
         tool_reply (snd ?j) ''Appointment scheduled with Dr. Smith on 2024-04-01 for follow-up.'')"
    by simp
  show ?thesis
    by (intro conjI conn obj A' J')
qed

section \<open>The transcript recorder\<close>

lemma js_get_opt: "\<not> nullish v \<Longrightarrow> js_get v k = Inr (js_opt_get v k)"
  by (cases v) (auto simp: js_opt_get_def nullish_def)

lemma find_transcript_find:
  "list_all (\<lambda>s. \<not> nullish s) segments \<Longrightarrow>
   find_transcript segments =
     Inr (case find (\<lambda>s. truthy (js_opt_get s ''transcript'')) segments of
            None \<Rightarrow> JUndefined
          | Some seg \<Rightarrow> seg)"
  by (induction segments) (auto simp: js_get_opt)

lemma find_transcript_null:
  "list_all (\<lambda>s. \<not> nullish s \<and> \<not> truthy (js_opt_get s ''transcript'')) before \<Longrightarrow>
   nullish seg \<Longrightarrow> find_transcript (before @ seg # rest) = Inl TypeError"
  by (induction before) (auto simp: js_get_opt nullish_def)

lemma find_Some_not_nullish:
  "list_all (\<lambda>s. \<not> nullish s) segments \<Longrightarrow> find P segments = Some seg \<Longrightarrow> \<not> nullish seg"
  by (induction segments) (auto split: if_splits)

lemma agent_message_segments:
  assumes "js_get response ''response'' = Inr r"
    and "js_get r ''output'' = Inr outputs"
    and "js_index0 outputs = Inr first"
    and "js_opt_get first ''content'' = JArr segments"
    and "list_all (\<lambda>s. \<not> nullish s) segments"
  shows "agent_message response =
           Inr (case find (\<lambda>s. truthy (js_opt_get s ''transcript'')) segments of
                  Some seg \<Rightarrow> js_opt_get seg ''transcript''
                | None \<Rightarrow> JStr ''Agent message not found'')"
proof (cases "find (\<lambda>s. truthy (js_opt_get s ''transcript'')) segments")
  case None
  then show ?thesis
    using assms(1-4) find_transcript_find[OF assms(5)]
    by (simp add: agent_message_def nullish_def js_or_def js_opt_get_def)
next
  case (Some seg)
  then have "truthy (js_opt_get seg ''transcript'')"
    by (auto dest: find_Some_iff[THEN iffD1])
  then show ?thesis
    using Some assms(1-4) find_transcript_find[OF assms(5)]
    by (simp add: agent_message_def nullish_def js_or_def)
qed

lemma agent_message_no_content:
  assumes "js_get response ''response'' = Inr r"
    and "js_get r ''output'' = Inr outputs"
    and "js_index0 outputs = Inr first"
    and "nullish (js_opt_get first ''content'')"
  shows "agent_message response = Inr (JStr ''Agent message not found'')"
  using assms by (simp add: agent_message_def)

lemma agent_message_not_array:
  assumes "js_get response ''response'' = Inr r"
    and "js_get r ''output'' = Inr outputs"
    and "js_index0 outputs = Inr first"
    and "\<not> nullish (js_opt_get first ''content'')"
    and "\<not> is_array (js_opt_get first ''content'')"
  shows "agent_message response = Inl TypeError"
  using assms
  by (cases "js_opt_get first ''content''") (simp_all add: agent_message_def is_array_def)

lemma agent_message_null_segment:
  assumes "js_get response ''response'' = Inr r"
    and "js_get r ''output'' = Inr outputs"
    and "js_index0 outputs = Inr first"
    and "js_opt_get first ''content'' = JArr (before @ seg # rest)"
    and "list_all (\<lambda>s. \<not> nullish s \<and> \<not> truthy (js_opt_get s ''transcript'')) before"
    and "nullish seg"
  shows "agent_message response = Inl TypeError"
  using assms(1-4) find_transcript_null[OF assms(5,6), of rest]
  by (simp add: agent_message_def nullish_def)

lemma response_done_event:
  assumes "JSON_parse rt data = Some response"
    and "js_get response ''type'' = Inr (JStr ''response.done'')"
    and "agent_message response = Inr m"
    and "to_string m = Inr s"
  shows "on_openai_message rt wc data = Ok (append_transcript (''Agent: '' @ s @ ''\<newline>'') wc)"
  using assms
  by (cases wc)
     (simp add: on_openai_message_def openai_body_def openai_audio_delta_def
        openai_function_call_def openai_response_done_def openai_transcription_def
        and_then_simps try_catch_simps)

lemma response_done_throws:
  assumes "JSON_parse rt data = Some response"
    and "js_get response ''type'' = Inr (JStr ''response.done'')"
    and "agent_message response = Inl e"
  shows "on_openai_message rt wc data =
           Ok ((fst wc)\<lparr>console := console (fst wc) @
                  [LogError ''Error processing OpenAI message:'' e]\<rparr>, snd wc)"
  using assms
  by (cases wc)
     (simp add: on_openai_message_def openai_body_def openai_audio_delta_def
        openai_function_call_def openai_response_done_def openai_transcription_def
        and_then_simps try_catch_simps console_error_def)

lemma transcription_event:
  assumes "JSON_parse rt data = Some response"
    and "js_get response ''type'' =
           Inr (JStr ''conversation.item.input_audio_transcription.completed'')"
    and "js_get response ''transcript'' = Inr (JStr u)"
    and "u \<noteq> []"
  shows "on_openai_message rt wc data = Ok (append_transcript (''User: '' @ trim u @ ''\<newline>'') wc)"
  using assms
  by (cases wc)
     (simp add: on_openai_message_def openai_body_def openai_audio_delta_def
        openai_function_call_def openai_response_done_def openai_transcription_def
        and_then_simps try_catch_simps)

lemma session_transcript_append:
  "session_transcript (append_transcript line wc) = session_transcript wc @ line"
  by (cases wc) (simp add: append_transcript_def session_transcript_def)

text \<open>
  Claim C5, as amended. A completed inbound-speech transcription whose transcript is a
  non-empty string appends \<open>User: \<close>, the transcript with the white space around it
  trimmed off, and a line feed. On a completed AI response whose response object and
  its output are present, the recorder looks at the content of the first output item
  only. When there is no first item, or it has no content, it appends
  \<open>Agent: Agent message not found\<close> and a line feed. When the content is an array of
  segments none of which is \<open>null\<close>, it appends \<open>Agent: \<close>, a text and a line
  feed, where the text is the first truthy transcript among the segments, or
  \<open>Agent message not found\<close> when no segment has one (the text being one that
  converts to a string, as every string does). When the content is there but is not an
  array, or a \<open>null\<close> segment comes before every segment with a truthy transcript,
  nothing is appended: the only change is one console entry, the handler's label with a
  TypeError. Lines are appended in the order the events arrive: a user event followed
  by an agent event adds the user's line and then the agent's, and the other order the
  reverse.
\<close>

theorem C5_transcript_lines:
  assumes "JSON_parse rt user_data = Some user_event"
    and "js_get user_event ''type'' =
           Inr (JStr ''conversation.item.input_audio_transcription.completed'')"
    and "js_get user_event ''transcript'' = Inr (JStr u)"
    and "u \<noteq> []"
    and "JSON_parse rt agent_data = Some agent_event"
    and "js_get agent_event ''type'' = Inr (JStr ''response.done'')"
    and "js_get agent_event ''response'' = Inr r"
    and "js_get r ''output'' = Inr outputs"
    and "js_index0 outputs = Inr first"
    and "content = js_opt_get first ''content''"
  shows "on_openai_message rt wc user_data =
           Ok (append_transcript (''User: '' @ trim u @ ''\<newline>'') wc) \<and>
         (nullish content \<longrightarrow>
            on_openai_message rt wc agent_data =
              Ok (append_transcript ''Agent: Agent message not found\<newline>'' wc)) \<and>
         (content = JArr segments \<and> list_all (\<lambda>s. \<not> nullish s) segments \<and>
          to_string (case find (\<lambda>s. truthy (js_opt_get s ''transcript'')) segments of
                       Some seg \<Rightarrow> js_opt_get seg ''transcript''
                     | None \<Rightarrow> JStr ''Agent message not found'') = Inr a \<longrightarrow>
            on_openai_message rt wc agent_data =
              Ok (append_transcript (''Agent: '' @ a @ ''\<newline>'') wc) \<and>
            (\<exists>wc'. run rt wc [OpenAiMessage user_data, OpenAiMessage agent_data] = Ok wc' \<and>
               session_transcript wc' =
                 session_transcript wc @ ''User: '' @ trim u @ ''\<newline>'' @
                 ''Agent: '' @ a @ ''\<newline>'') \<and>
            (\<exists>wc'. run rt wc [OpenAiMessage agent_data, OpenAiMessage user_data] = Ok wc' \<and>
               session_transcript wc' =
                 session_transcript wc @ ''Agent: '' @ a @ ''\<newline>'' @
                 ''User: '' @ trim u @ ''\<newline>'')) \<and>
         (\<not> nullish content \<and> \<not> is_array content \<longrightarrow>
            on_openai_message rt wc agent_data =
              Ok ((fst wc)\<lparr>console := console (fst wc) @
                     [LogError ''Error processing OpenAI message:'' TypeError]\<rparr>, snd wc)) \<and>
         (content = JArr (before @ seg # rest) \<and>
          list_all (\<lambda>s. \<not> nullish s \<and> \<not> truthy (js_opt_get s ''transcript'')) before \<and>
          nullish seg \<longrightarrow>
            on_openai_message rt wc agent_data =
              Ok ((fst wc)\<lparr>console := console (fst wc) @
                     [LogError ''Error processing OpenAI message:'' TypeError]\<rparr>, snd wc))"
proof -
  note shape = assms(7-9)
  have U: "\<And>wc. on_openai_message rt wc user_data =
      Ok (append_transcript (''User: '' @ trim u @ ''\<newline>'') wc)"
    by (rule transcription_event[OF assms(1-4)])
  have A0: "on_openai_message rt wc agent_data =
              Ok (append_transcript ''Agent: Agent message not found\<newline>'' wc)"
    if "nullish content"
    using response_done_event[OF assms(5,6) agent_message_no_content[OF shape], of _ wc]
      that assms(10)
    by simp
  have A: "on_openai_message rt wc' agent_data =
      Ok (append_transcript (''Agent: '' @ a @ ''\<newline>'') wc')"
    if "content = JArr segments" "list_all (\<lambda>s. \<not> nullish s) segments"
      "to_string (case find (\<lambda>s. truthy (js_opt_get s ''transcript'')) segments of
                       Some seg \<Rightarrow> js_opt_get seg ''transcript''
                     | None \<Rightarrow> JStr ''Agent message not found'') = Inr a" for wc'
  proof -
    have "js_opt_get first ''content'' = JArr segments"
      using that(1) assms(10) by simp
    from response_done_event[OF assms(5,6) agent_message_segments[OF shape this that(2)] that(3)]
    show ?thesis .
  qed
  have N1: "on_openai_message rt wc agent_data =
              Ok ((fst wc)\<lparr>console := console (fst wc) @
                     [LogError ''Error processing OpenAI message:'' TypeError]\<rparr>, snd wc)"
    if "\<not> nullish content" "\<not> is_array content"
    using response_done_throws[OF assms(5,6) agent_message_not_array[OF shape], of wc]
      that assms(10)
    by simp
  have N2: "on_openai_message rt wc agent_data =
              Ok ((fst wc)\<lparr>console := console (fst wc) @
                     [LogError ''Error processing OpenAI message:'' TypeError]\<rparr>, snd wc)"
    if "content = JArr (before @ seg # rest)"
      "list_all (\<lambda>s. \<not> nullish s \<and> \<not> truthy (js_opt_get s ''transcript'')) before"
      "nullish seg"
  proof -
    have "js_opt_get first ''content'' = JArr (before @ seg # rest)"
      using that(1) assms(10) by simp
    from response_done_throws[OF assms(5,6) agent_message_null_segment[OF shape this that(2,3)]]
    show ?thesis .
  qed
  show ?thesis
    using A0 A N1 N2 by (simp add: U step_def and_then_simps session_transcript_append)
qed

lemma transcript_frames:
  "JSON_parse transcript_runtime ''user'' = Some user_utterance_event"
  "js_get user_utterance_event ''type'' =
     Inr (JStr ''conversation.item.input_audio_transcription.completed'')"
  "js_get user_utterance_event ''transcript'' = Inr (JStr ''I need a refill'')"
  "JSON_parse transcript_runtime ''agent'' = Some agent_utterance_event"
  "js_get agent_utterance_event ''type'' = Inr (JStr ''response.done'')"
  "JSON_parse transcript_runtime ''silent'' = Some silent_response_event"
  "js_get silent_response_event ''type'' = Inr (JStr ''response.done'')"
  "js_get silent_response_event ''response'' = Inr (JObj [(''output'', JArr [])])"
  "JSON_parse transcript_runtime ''padded'' = Some padded_utterance_event"
  "js_get padded_utterance_event ''type'' =
     Inr (JStr ''conversation.item.input_audio_transcription.completed'')"
  "js_get padded_utterance_event ''transcript'' = Inr (JStr '' I need a refill\<newline>'')"
  "JSON_parse transcript_runtime ''text content'' = Some text_content_event"
  "js_get text_content_event ''type'' = Inr (JStr ''response.done'')"
  "JSON_parse transcript_runtime ''null segment'' = Some null_segment_event"
  "js_get null_segment_event ''type'' = Inr (JStr ''response.done'')"
  by (simp_all add: transcript_runtime_def table_runtime_def user_utterance_event_def
      agent_utterance_event_def silent_response_event_def padded_utterance_event_def
      text_content_event_def null_segment_event_def)

lemma trim_examples:
  "trim ''I need a refill'' = ''I need a refill''"
  "trim '' I need a refill\<newline>'' = ''I need a refill''"
  by (simp_all add: trim_def is_white_space_def)

lemma first_call_transcript: "session_transcript (first_call (server_start d)) = []"
  by (simp add: session_transcript_def first_call_def media_stream_connect_def server_start_def
      Let_def)

theorem C5_transcript_lines_witness:
  "(\<exists>wc'. run transcript_runtime (first_call (server_start populated_db))
            [OpenAiMessage ''user'', OpenAiMessage ''agent''] = Ok wc' \<and>
          session_transcript wc' = ''User: I need a refill\<newline>Agent: I can help with that\<newline>'') \<and>
   on_openai_message transcript_runtime (first_call (server_start populated_db)) ''padded'' =
     Ok (append_transcript ''User: I need a refill\<newline>''
           (first_call (server_start populated_db))) \<and>
   on_openai_message transcript_runtime (first_call (server_start populated_db)) ''silent'' =
     Ok (append_transcript ''Agent: Agent message not found\<newline>''
           (first_call (server_start populated_db))) \<and>
   on_openai_message transcript_runtime (first_call (server_start populated_db))
       ''text content'' =
     Ok ((fst (first_call (server_start populated_db)))
           \<lparr>console := console (fst (first_call (server_start populated_db))) @
              [LogError ''Error processing OpenAI message:'' TypeError]\<rparr>,
         snd (first_call (server_start populated_db))) \<and>
   on_openai_message transcript_runtime (first_call (server_start populated_db))
       ''null segment'' =
     Ok ((fst (first_call (server_start populated_db)))
           \<lparr>console := console (fst (first_call (server_start populated_db))) @
              [LogError ''Error processing OpenAI message:'' TypeError]\<rparr>,
         snd (first_call (server_start populated_db)))"
  using C5_transcript_lines
      [OF transcript_frames(1-3) _ transcript_frames(4,5),
       where wc = "first_call (server_start populated_db)"
         and r = "JObj [(''output'',
                   JArr [JObj [(''type'', JStr ''message''),
                               (''content'',
                                JArr [JObj [(''type'', JStr ''audio''),
                                            (''transcript'', JStr ''I can help with that'')]])]])]"
         and outputs = "JArr [JObj [(''type'', JStr ''message''),
                               (''content'',
                                JArr [JObj [(''type'', JStr ''audio''),
                                            (''transcript'', JStr ''I can help with that'')]])]]"
         and first = "JObj [(''type'', JStr ''message''),
                               (''content'',
                                JArr [JObj [(''type'', JStr ''audio''),
                                            (''transcript'', JStr ''I can help with that'')]])]"
         and content = "JArr [JObj [(''type'', JStr ''audio''),
                                    (''transcript'', JStr ''I can help with that'')]]"
         and segments = "[JObj [(''type'', JStr ''audio''),
                                (''transcript'', JStr ''I can help with that'')]]"
         and a = "''I can help with that''"]
    C5_transcript_lines
      [OF transcript_frames(9-11) _ transcript_frames(6,7,8),
       where wc = "first_call (server_start populated_db)" and outputs = "JArr []"
         and first = JUndefined and content = JUndefined]
    C5_transcript_lines
      [OF transcript_frames(1-3) _ transcript_frames(12,13),
       where wc = "first_call (server_start populated_db)"
         and r = "JObj [(''output'', JArr [JObj [(''content'', JStr ''abc'')]])]"
         and outputs = "JArr [JObj [(''content'', JStr ''abc'')]]"
         and first = "JObj [(''content'', JStr ''abc'')]" and content = "JStr ''abc''"]
    C5_transcript_lines
      [OF transcript_frames(1-3) _ transcript_frames(14,15),
       where wc = "first_call (server_start populated_db)"
         and r = "JObj [(''output'',
                   JArr [JObj [(''content'',
                                JArr [JNull, JObj [(''transcript'', JStr ''late'')]])]])]"
         and outputs = "JArr [JObj [(''content'',
                                JArr [JNull, JObj [(''transcript'', JStr ''late'')]])]]"
         and first = "JObj [(''content'',
                                JArr [JNull, JObj [(''transcript'', JStr ''late'')]])]"
         and content = "JArr [JNull, JObj [(''transcript'', JStr ''late'')]]"
         and before = "[]" and seg = JNull
         and rest = "[JObj [(''transcript'', JStr ''late'')]]"]
  by (simp add: agent_utterance_event_def text_content_event_def null_segment_event_def
      trim_examples first_call_transcript js_opt_get_def nullish_def is_array_def)

text \<open>
  Claim C5 as stated ("only when") fails on a completed AI response with no content
  segment at all: the recorder still appends an agent line, with the fallback text.
\<close>

theorem C5_line_without_segment_counterexample:
  "agent_message silent_response_event = Inr (JStr ''Agent message not found'') \<and>
   (\<exists>wc'. on_openai_message transcript_runtime (first_call (server_start populated_db))
            ''silent'' = Ok wc' \<and>
          session_transcript wc' = ''Agent: Agent message not found\<newline>'')"
proof -
  have am: "agent_message silent_response_event = Inr (JStr ''Agent message not found'')"
    by (simp add: agent_message_def silent_response_event_def js_opt_get_def nullish_def)
  have "to_string (JStr ''Agent message not found'') = Inr ''Agent message not found''"
    by simp
  from response_done_event[OF transcript_frames(6,7) am this]
  show ?thesis
    using am by (simp add: session_transcript_append first_call_transcript)
qed

section \<open>The authenticated profile\<close>

























section \<open>Teardown\<close>

text \<open>
  Claim C6, at a teardown with no profile bound. The handler reads \<open>globalUser.id\<close>
  before it calls \<open>saveTranscript\<close>: with no profile the read throws, the handler
  raises a TypeError, nothing is logged and the session stays registered (only the
  closing of the AI socket has happened).
\<close>

theorem C6_teardown_without_profile_raises:
  "on_connection_close now (w\<lparr>globalUser := None\<rparr>, c) =
     Raise TypeError
       (w\<lparr>globalUser := None\<rparr>,
        if readyState (openAiWs c) = OPEN
        then c\<lparr>openAiWs := (openAiWs c)\<lparr>readyState := CLOSING\<rparr>\<rparr>
        else c)"
  by (simp add: on_connection_close_def Let_def)

section \<open>The password attempt counter\<close>

lemma process_password_failed:
  assumes "fst (verifyUser w userId password) = None"
  shows "process_password w userId password =
     (let la1 = (if attempt_truthy (attempts_get (loginAttempts w) userId) then loginAttempts w
                 else attempts_set (loginAttempts w) userId (ANum 0));
          la2 = attempts_set la1 userId (attempt_plus1 (attempts_get la1 userId));
          w1 = snd (verifyUser (w\<lparr>loginAttempts := la2\<rparr>) userId password)
      in if attempt_ge3 (attempts_get la2 userId)
         then (Hangup, w1\<lparr>loginAttempts := attempts_set la2 userId (ANum 0)\<rparr>)
         else (TryAgain, w1))"
proof -
  have v: "verifyUser (w\<lparr>loginAttempts := la\<rparr>) userId password =
      (None, (snd (verifyUser w userId password))\<lparr>loginAttempts := la\<rparr>)" for la
    using assms by (auto simp: verifyUser_def console_error_def split: option.splits)
  show ?thesis
    by (simp add: process_password_def Let_def v)
qed

lemma login_attempts_ordinary:
  assumes "userId \<notin> set Object_prototype_names"
    and "loginAttempts w userId = None \<and> n = 0 \<or> loginAttempts w userId = Some (ANum n)"
    and "fst (verifyUser w userId password) = None"
  shows "fst (process_password w userId password) = (if 3 \<le> n + 1 then Hangup else TryAgain) \<and>
         loginAttempts (snd (process_password w userId password)) userId =
           Some (ANum (if 3 \<le> n + 1 then 0 else n + 1))"
proof -
  have k: "userId \<noteq> ''__proto__''"
    using assms(1) by (auto simp: Object_prototype_names_def)
  have v: "loginAttempts (snd (verifyUser w' userId password)) = loginAttempts w'" for w'
    by (simp add: verifyUser_def console_error_def split: option.splits)
  show ?thesis
    using assms(1,2) k
    by (cases n)
       (auto simp: process_password_failed[OF assms(3)] Let_def attempts_get_def attempts_set_def v)
qed

lemma login_attempts_success:
  assumes "fst (verifyUser w userId password) = Some u" and "userId \<noteq> ''__proto__''"
  shows "\<exists>m. fst (process_password w userId password) = Connect m (u_phone_number u) \<and>
         loginAttempts (snd (process_password w userId password)) userId = Some (ANum 0)"
proof -
  have v: "verifyUser (w\<lparr>loginAttempts := la\<rparr>) userId password =
      (Some u, w\<lparr>loginAttempts := la\<rparr>)" for la
    using assms(1) by (auto simp: verifyUser_def console_error_def split: option.splits)
  have g: "loginAttempts (snd (getLastCallInfo w')) = loginAttempts w'" for w'
    by (simp add: getLastCallInfo_def console_error_def split: option.splits)
  obtain m w3 where l: "getLastCallInfo
      (w\<lparr>loginAttempts :=
           attempts_set
             (attempts_set
               (if attempt_truthy (attempts_get (loginAttempts w) userId) then loginAttempts w
                else attempts_set (loginAttempts w) userId (ANum 0))
               userId
               (attempt_plus1
                 (attempts_get
                   (if attempt_truthy (attempts_get (loginAttempts w) userId)
                    then loginAttempts w
                    else attempts_set (loginAttempts w) userId (ANum 0))
                   userId)))
             userId (ANum 0),
         globalUser := Some u\<rparr>) = (m, w3)"
    by (meson surj_pair)
  from g[of "w\<lparr>loginAttempts :=
           attempts_set
             (attempts_set
               (if attempt_truthy (attempts_get (loginAttempts w) userId) then loginAttempts w
                else attempts_set (loginAttempts w) userId (ANum 0))
               userId
               (attempt_plus1
                 (attempts_get
                   (if attempt_truthy (attempts_get (loginAttempts w) userId)
                    then loginAttempts w
                    else attempts_set (loginAttempts w) userId (ANum 0))
                   userId)))
             userId (ANum 0),
         globalUser := Some u\<rparr>"] l
  have "loginAttempts w3 userId = Some (ANum 0)"
    using assms(2) by (simp add: attempts_set_def)
  then show ?thesis
    using l by (simp add: process_password_def Let_def v)
qed


lemma login_attempts_inherited:
  assumes "userId \<in> set Object_prototype_names"
    and "loginAttempts w userId = None \<or> loginAttempts w userId = Some AText"
    and "fst (verifyUser w userId password) = None"
  shows "fst (process_password w userId password) = TryAgain \<and>
         (loginAttempts (snd (process_password w userId password)) userId = None \<or>
          loginAttempts (snd (process_password w userId password)) userId = Some AText)"
proof -
  have v: "loginAttempts (snd (verifyUser w' userId password)) = loginAttempts w'" for w'
    by (simp add: verifyUser_def console_error_def split: option.splits)
  show ?thesis
    using assms(1,2)
    by (auto simp: process_password_failed[OF assms(3)] Let_def attempts_get_def attempts_set_def v)
qed

text \<open>
  Claim C1, at an identifier the counter mishandles. \<open>loginAttempts\<close> is a plain
  object, so the identifier \<open>constructor\<close> reads the inherited function: the slot is
  never initialised to zero, \<open>+= 1\<close> makes a text of it, and the comparison with 3
  is false. Four wrong passwords in a row are each answered with another try and the
  call is never hung up, where an ordinary identifier is hung up at the third.
\<close>

theorem C1_inherited_name_never_locked_out:
  "fst (attempts_run (server_start populated_db) ''constructor''
          [''000000'', ''000001'', ''000002'', ''000003'']) =
     [TryAgain, TryAgain, TryAgain, TryAgain] \<and>
   fst (attempts_run (server_start populated_db) ''87654321''
          [''000000'', ''000001'', ''000002'']) =
     [TryAgain, TryAgain, Hangup]"
  by (simp add: process_password_def verifyUser_def server_start_def populated_db_def
      sampleUser_def attempts_get_def attempts_set_def Object_prototype_names_def Let_def)

end
